theory Spec2Isabelle
  imports Complex_Main
begin

section \<open>JavaScript values\<close>

text \<open>
  The validator of \<^verbatim>\<open>src/OpenApiValidator.ts\<close> works on plain JavaScript values:
  the OpenAPI document, the schemas derived from it, the request and the response are all
  objects, arrays, strings, numbers, booleans, \<^verbatim>\<open>null\<close> and \<^verbatim>\<open>undefined\<close>.
  A number is an IEEE double: not-a-number, an infinity, or a finite value, which is a
  rational (the two zeros are one value here; no operation of the source tells them apart).
  An object is a plain object (its prototype is \<^verbatim>\<open>Object.prototype\<close>), given by the list
  of its own properties in insertion order; a property name occurs once.

  Reading a property that a value does not own goes to the prototype of the value, where
  the members are built-in objects of the realm: functions such as
  \<^verbatim>\<open>Object.prototype.toString\<close>, and the prototypes themselves. \<open>JFun\<close> and \<open>JProto\<close>
  stand for them, each named by its path from the global object. A built-in object is one
  object, so two of them are the same object exactly when they have the same name. The
  intrinsics are taken as the standard leaves them (nothing has been added to or removed
  from a prototype).
\<close>

datatype jsnum = NaN | PosInf | NegInf | Fin rat

datatype jsval =
    JUndefined
  | JNull
  | JBool bool
  | JNum jsnum
  | JStr string
  | JArr "jsval list"
  | JObj "(string \<times> jsval) list"
  | JFun string
  | JProto string

datatype js_error = TypeError | SyntaxError | Error string

datatype hint = HintString | HintNumber

text \<open>
  What the language builds in and this development does not write out is a field of a
  \<open>runtime\<close>, and every theorem below holds for every runtime:
  the remaining cases of \<^verbatim>\<open>Number(s)\<close>, \<^verbatim>\<open>BigInt(s)\<close> and of the string form of a
  number (see the section on conversions); the members that arrays, strings, numbers and
  booleans inherit, and the properties of the built-in objects themselves
  (\<open>builtin_get\<close>, \<open>None\<close> when there is no such property; \<open>builtin_own\<close>); the source text
  a built-in function prints as; the primitive value a built-in prototype converts to; and
  the result of calling a built-in function as a conversion method of a plain object
  (\<open>None\<close> when the call throws, which is then a TypeError).
\<close>

record runtime =
  other_Number :: "string \<Rightarrow> jsnum"
  other_BigInt :: "string \<Rightarrow> int option"
  other_toString :: "rat \<Rightarrow> string"
  builtin_get :: "string \<Rightarrow> string \<Rightarrow> jsval option"
  builtin_own :: "string \<Rightarrow> string \<Rightarrow> bool"
  function_source :: "string \<Rightarrow> string"
  prototype_primitive :: "string \<Rightarrow> hint \<Rightarrow> jsval"
  call_builtin :: "string \<Rightarrow> jsval \<Rightarrow> jsval option"

definition bind :: "js_error + 'a \<Rightarrow> ('a \<Rightarrow> js_error + 'b) \<Rightarrow> js_error + 'b" where
  \<comment> \<open>Sequencing: an exception ends the computation.\<close>
  "bind r f = (case r of Inl e \<Rightarrow> Inl e | Inr x \<Rightarrow> f x)"

definition nullish :: "jsval \<Rightarrow> bool" where
  \<comment> \<open>\<^verbatim>\<open>v == null\<close>: true of \<^verbatim>\<open>null\<close> and \<^verbatim>\<open>undefined\<close> only.\<close>
  "nullish v = (v = JNull \<or> v = JUndefined)"

definition arr_index :: "jsval list \<Rightarrow> nat \<Rightarrow> jsval" where
  \<comment> \<open>\<^verbatim>\<open>data[i]\<close> on an array: \<^verbatim>\<open>undefined\<close> out of range.\<close>
  "arr_index xs i = (if i < length xs then xs ! i else JUndefined)"

definition array_elements :: "jsval \<Rightarrow> jsval list option" where
  \<comment> \<open>The elements of a value that \<^verbatim>\<open>Array.isArray\<close> holds of: \<^verbatim>\<open>Array.prototype\<close>
      is itself an array, an empty one.\<close>
  "array_elements v =
     (case v of
        JArr xs \<Rightarrow> Some xs
      | JProto n \<Rightarrow> (if n = ''Array.prototype'' then Some [] else None)
      | _ \<Rightarrow> None)"

definition truthy :: "jsval \<Rightarrow> bool" where
  \<comment> \<open>ToBoolean, as \<^verbatim>\<open>||\<close>, \<^verbatim>\<open>!\<close> and \<^verbatim>\<open>? :\<close> apply it.\<close>
  "truthy v =
     (case v of
        JUndefined \<Rightarrow> False
      | JNull \<Rightarrow> False
      | JBool b \<Rightarrow> b
      | JNum n \<Rightarrow> n \<noteq> NaN \<and> n \<noteq> Fin 0
      | JStr s \<Rightarrow> s \<noteq> []
      | JArr _ \<Rightarrow> True
      | JObj _ \<Rightarrow> True
      | JFun _ \<Rightarrow> True
      | JProto _ \<Rightarrow> True)"

definition js_or :: "jsval \<Rightarrow> jsval \<Rightarrow> jsval" where
  \<comment> \<open>\<^verbatim>\<open>a || b\<close>\<close>
  "js_or a b = (if truthy a then a else b)"

subsection \<open>Decimal numerals\<close>

definition digit_char :: "nat \<Rightarrow> char" where
  "digit_char d = char_of (48 + d)"

definition is_digit :: "char \<Rightarrow> bool" where
  "is_digit c = (48 \<le> (of_char c :: nat) \<and> (of_char c :: nat) \<le> 57)"

definition digit_val :: "char \<Rightarrow> nat" where
  "digit_val c = of_char c - 48"

fun string_of_nat :: "nat \<Rightarrow> string" where
  "string_of_nat n =
     (if n < 10 then [digit_char n] else string_of_nat (n div 10) @ [digit_char (n mod 10)])"

declare string_of_nat.simps [simp del]

definition nat_of_digits :: "string \<Rightarrow> nat" where
  "nat_of_digits s = foldl (\<lambda>a c. 10 * a + digit_val c) 0 s"

definition all_digits :: "string \<Rightarrow> bool" where
  "all_digits s = (s \<noteq> [] \<and> list_all is_digit s)"

definition array_index_key :: "string \<Rightarrow> nat option" where
  \<comment> \<open>A property name that is an array index: the decimal numeral of a natural number,
      without leading zeros.\<close>
  "array_index_key k =
     (if all_digits k \<and> string_of_nat (nat_of_digits k) = k then Some (nat_of_digits k)
      else None)"

fun split_on :: "char \<Rightarrow> string \<Rightarrow> string list" where
  \<comment> \<open>\<^verbatim>\<open>s.split(c)\<close> for a one-character separator: the pieces between the
      separators; a string without one, the empty string too, is one piece.\<close>
  "split_on c [] = [[]]"
| "split_on c (x # xs) =
     (if x = c then [] # split_on c xs
      else case split_on c xs of [] \<Rightarrow> [[x]] | w # ws \<Rightarrow> (x # w) # ws)"

subsection \<open>Property access\<close>

fun assoc :: "(string \<times> jsval) list \<Rightarrow> string \<Rightarrow> jsval" where
  \<comment> \<open>The value of an own property of an object, \<^verbatim>\<open>undefined\<close> when the object has
      none of that name.\<close>
  "assoc [] k = JUndefined"
| "assoc ((k', v) # ps) k = (if k' = k then v else assoc ps k)"

definition own_value :: "jsval \<Rightarrow> string \<Rightarrow> jsval option" where
  \<comment> \<open>The own property \<open>k\<close> of a plain object, an array or a string, when it has one: an
      array and a string own their \<^verbatim>\<open>length\<close> and their indices.\<close>
  "own_value v k =
     (case v of
        JObj ps \<Rightarrow> (if k \<in> set (map fst ps) then Some (assoc ps k) else None)
      | JArr xs \<Rightarrow>
          (if k = ''length'' then Some (JNum (Fin (of_nat (length xs))))
           else case array_index_key k of
                  Some i \<Rightarrow> (if i < length xs then Some (xs ! i) else None)
                | None \<Rightarrow> None)
      | JStr s \<Rightarrow>
          (if k = ''length'' then Some (JNum (Fin (of_nat (length s))))
           else case array_index_key k of
                  Some i \<Rightarrow> (if i < length s then Some (JStr [s ! i]) else None)
                | None \<Rightarrow> None)
      | _ \<Rightarrow> None)"

definition Object_prototype_methods :: "string list" where
  \<comment> \<open>The function-valued members of \<^verbatim>\<open>Object.prototype\<close> other than
      \<^verbatim>\<open>constructor\<close>.\<close>
  "Object_prototype_methods =
     [''__defineGetter__'', ''__defineSetter__'', ''hasOwnProperty'', ''__lookupGetter__'',
      ''__lookupSetter__'', ''isPrototypeOf'', ''propertyIsEnumerable'', ''toString'',
      ''valueOf'', ''toLocaleString'']"

definition Object_prototype_get :: "string \<Rightarrow> jsval option" where
  \<comment> \<open>What a plain object inherits under the name \<open>k\<close>: \<^verbatim>\<open>constructor\<close> is the
      function \<^verbatim>\<open>Object\<close>, \<^verbatim>\<open>__proto__\<close> reads the prototype of the object.\<close>
  "Object_prototype_get k =
     (if k = ''constructor'' then Some (JFun ''Object'')
      else if k \<in> set Object_prototype_methods then Some (JFun (''Object.prototype.'' @ k))
      else if k = ''__proto__'' then Some (JProto ''Object.prototype'')
      else None)"

definition inherited :: "runtime \<Rightarrow> jsval \<Rightarrow> string \<Rightarrow> jsval option" where
  \<comment> \<open>The property \<open>k\<close> that a value does not own, found on its prototype chain. No
      built-in prototype has a member named by an array index.\<close>
  "inherited rt v k =
     (case v of
        JObj _ \<Rightarrow> Object_prototype_get k
      | JArr _ \<Rightarrow> (if array_index_key k \<noteq> None then None else builtin_get rt ''Array.prototype'' k)
      | JStr _ \<Rightarrow> (if array_index_key k \<noteq> None then None else builtin_get rt ''String.prototype'' k)
      | JNum _ \<Rightarrow> builtin_get rt ''Number.prototype'' k
      | JBool _ \<Rightarrow> builtin_get rt ''Boolean.prototype'' k
      | JFun n \<Rightarrow> builtin_get rt n k
      | JProto n \<Rightarrow> builtin_get rt n k
      | _ \<Rightarrow> None)"

definition get_prop :: "runtime \<Rightarrow> jsval \<Rightarrow> string \<Rightarrow> jsval" where
  \<comment> \<open>\<^verbatim>\<open>v[k]\<close> for a value that is neither \<^verbatim>\<open>null\<close> nor \<^verbatim>\<open>undefined\<close>: the own
      property, or else the inherited one, or else \<^verbatim>\<open>undefined\<close>.\<close>
  "get_prop rt v k =
     (case own_value v k of
        Some x \<Rightarrow> x
      | None \<Rightarrow> (case inherited rt v k of Some x \<Rightarrow> x | None \<Rightarrow> JUndefined))"

definition read_prop :: "runtime \<Rightarrow> jsval \<Rightarrow> string \<Rightarrow> js_error + jsval" where
  \<comment> \<open>\<^verbatim>\<open>v[k]\<close> in general: reading a property of \<^verbatim>\<open>null\<close> or \<^verbatim>\<open>undefined\<close>
      throws a TypeError.\<close>
  "read_prop rt v k = (if nullish v then Inl TypeError else Inr (get_prop rt v k))"

definition has_own :: "runtime \<Rightarrow> jsval \<Rightarrow> string \<Rightarrow> bool" where
  \<comment> \<open>\<^verbatim>\<open>hasOwnProperty\<close>: the key is there, whatever its value.\<close>
  "has_own rt v k =
     (case v of
        JFun n \<Rightarrow> builtin_own rt n k
      | JProto n \<Rightarrow> builtin_own rt n k
      | _ \<Rightarrow> own_value v k \<noteq> None)"

definition has_in :: "runtime \<Rightarrow> jsval \<Rightarrow> string \<Rightarrow> bool" where
  \<comment> \<open>\<^verbatim>\<open>k in Object(v)\<close>: the key is there, own or inherited.\<close>
  "has_in rt v k = (own_value v k \<noteq> None \<or> inherited rt v k \<noteq> None)"

definition Object_keys :: "jsval \<Rightarrow> string list" where
  \<comment> \<open>\<^verbatim>\<open>Object.keys(v)\<close> for a value that is neither \<^verbatim>\<open>null\<close> nor \<^verbatim>\<open>undefined\<close>:
      the own enumerable property names. The properties of the built-in objects are not
      enumerable.\<close>
  "Object_keys v =
     (case v of
        JObj ps \<Rightarrow> map fst ps
      | JArr xs \<Rightarrow> map string_of_nat [0..<length xs]
      | JStr s \<Rightarrow> map string_of_nat [0..<length s]
      | _ \<Rightarrow> [])"

subsection \<open>The lodash helpers the source calls\<close>

fun base_get :: "runtime \<Rightarrow> jsval \<Rightarrow> string list \<Rightarrow> jsval" where
  \<comment> \<open>lodash \<^verbatim>\<open>baseGet\<close>: walk the path while the value is not \<^verbatim>\<open>null\<close> or
      \<^verbatim>\<open>undefined\<close>; a walk cut short gives \<^verbatim>\<open>undefined\<close>.\<close>
  "base_get rt v [] = v"
| "base_get rt v (k # ks) = (if nullish v then JUndefined else base_get rt (get_prop rt v k) ks)"

definition lodash_get :: "runtime \<Rightarrow> jsval \<Rightarrow> string list \<Rightarrow> jsval \<Rightarrow> jsval" where
  \<comment> \<open>\<^verbatim>\<open>_.get(object, path, defaultValue)\<close> for a non-empty path: the default stands in
      for \<^verbatim>\<open>undefined\<close> only, so a \<^verbatim>\<open>null\<close> found at the path is returned.\<close>
  "lodash_get rt object path defaultValue =
     (let result = (if path = [] then JUndefined else base_get rt object path)
      in if result = JUndefined then defaultValue else result)"

fun lodash_has :: "runtime \<Rightarrow> jsval \<Rightarrow> string list \<Rightarrow> bool" where
  \<comment> \<open>\<^verbatim>\<open>_.has(object, path)\<close>: every key of the path is an own property.\<close>
  "lodash_has rt v [] = False"
| "lodash_has rt v [k] = (\<not> nullish v \<and> has_own rt v k)"
| "lodash_has rt v (k # ks) = (\<not> nullish v \<and> has_own rt v k \<and> lodash_has rt (get_prop rt v k) ks)"

definition lodash_isEmpty :: "jsval \<Rightarrow> bool" where
  \<comment> \<open>\<^verbatim>\<open>_.isEmpty(v)\<close>: \<^verbatim>\<open>null\<close>, \<^verbatim>\<open>undefined\<close>, numbers and booleans are empty;
      a string or an array is empty when its length is 0, an object when it has no own
      enumerable key, which is the case of every built-in object.\<close>
  "lodash_isEmpty v =
     (case v of
        JObj ps \<Rightarrow> ps = []
      | JArr xs \<Rightarrow> xs = []
      | JStr s \<Rightarrow> s = []
      | _ \<Rightarrow> True)"

fun obj_set :: "(string \<times> jsval) list \<Rightarrow> string \<Rightarrow> jsval \<Rightarrow> (string \<times> jsval) list" where
  \<comment> \<open>Assigning a property: an existing key keeps its place, a new key goes last.\<close>
  "obj_set [] k v = [(k, v)]"
| "obj_set ((k', v') # ps) k v = (if k' = k then (k, v) # ps else (k', v') # obj_set ps k v)"

definition obj_spread :: "(string \<times> jsval) list \<Rightarrow> jsval \<Rightarrow> (string \<times> jsval) list" where
  \<comment> \<open>\<^verbatim>\<open>{...base, ...v}\<close>: the own enumerable properties of \<open>v\<close> are assigned in their
      order; spreading \<^verbatim>\<open>null\<close>, \<^verbatim>\<open>undefined\<close>, a number, a boolean or a built-in
      object adds nothing.\<close>
  "obj_spread base v =
     foldl (\<lambda>acc k. obj_set acc k (case own_value v k of Some x \<Rightarrow> x | None \<Rightarrow> JUndefined))
       base (Object_keys v)"

section \<open>Conversions of the language\<close>

text \<open>
  \<^verbatim>\<open>Number(s)\<close>, \<^verbatim>\<open>BigInt(s)\<close> and the string form of a number are built into
  the language. They are written out here where the standard's rule is one line: a string
  of at most 20 decimal digits converts to the double nearest to its value (ties to the even
  significand), the empty string to 0; a string of decimal digits converts to the BigInt of
  its value; an integral number below \<open>2^53\<close> in magnitude prints as its decimal
  numeral. Their remaining cases (signs, fractions, exponents, white space, hexadecimal
  literals, the shortest digits of a fraction or of a number from \<open>2^53\<close> on) are fields of
  the runtime.
\<close>

function excess_bits :: "nat \<Rightarrow> nat" where
  \<comment> \<open>How many bits a number has beyond 53.\<close>
  "excess_bits n = (if n < 2 ^ 53 then 0 else Suc (excess_bits (n div 2)))"
  by pat_completeness auto
termination
  by (relation "measure id") auto

declare excess_bits.simps [simp del]

definition round_double :: "nat \<Rightarrow> nat" where
  \<comment> \<open>The double nearest to a natural number below \<open>2^1023\<close>: its 53 leading bits,
      rounded to nearest, ties to even.\<close>
  "round_double n =
     (if n < 2 ^ 53 then n
      else let e = excess_bits n;
               q = n div 2 ^ e;
               r = n mod 2 ^ e;
               half = 2 ^ (e - 1)
           in (if half < r \<or> (r = half \<and> odd q) then q + 1 else q) * 2 ^ e)"

definition Number_of_string :: "runtime \<Rightarrow> string \<Rightarrow> jsnum" where
  "Number_of_string rt s =
     (if s = [] then Fin 0
      else if all_digits s \<and> length s \<le> 20 then Fin (of_nat (round_double (nat_of_digits s)))
      else other_Number rt s)"

definition BigInt_of_string :: "runtime \<Rightarrow> string \<Rightarrow> int option" where
  \<comment> \<open>\<open>None\<close>: \<^verbatim>\<open>BigInt(s)\<close> throws a SyntaxError.\<close>
  "BigInt_of_string rt s =
     (if all_digits s then Some (int (nat_of_digits s)) else other_BigInt rt s)"

definition is_integral :: "rat \<Rightarrow> bool" where
  "is_integral q = (of_int \<lfloor>q\<rfloor> = q)"

definition Number_toString :: "runtime \<Rightarrow> jsnum \<Rightarrow> string" where
  "Number_toString rt x =
     (case x of
        NaN \<Rightarrow> ''NaN''
      | PosInf \<Rightarrow> ''Infinity''
      | NegInf \<Rightarrow> ''-Infinity''
      | Fin q \<Rightarrow>
          (if is_integral q \<and> \<bar>q\<bar> < 2 ^ 53
           then (if q < 0 then ''-'' else []) @ string_of_nat (nat \<bar>\<lfloor>q\<rfloor>\<bar>)
           else other_toString rt q))"

fun join_comma :: "string list \<Rightarrow> string" where
  "join_comma [] = []"
| "join_comma [s] = s"
| "join_comma (s # t # ss) = s @ '','' @ join_comma (t # ss)"

definition is_primitive :: "jsval \<Rightarrow> bool" where
  "is_primitive v =
     (case v of JArr _ \<Rightarrow> False | JObj _ \<Rightarrow> False | JFun _ \<Rightarrow> False | JProto _ \<Rightarrow> False | _ \<Rightarrow> True)"

definition prim_to_string :: "runtime \<Rightarrow> jsval \<Rightarrow> string" where
  \<comment> \<open>ToString of a primitive value.\<close>
  "prim_to_string rt p =
     (case p of
        JUndefined \<Rightarrow> ''undefined''
      | JNull \<Rightarrow> ''null''
      | JBool b \<Rightarrow> (if b then ''true'' else ''false'')
      | JNum n \<Rightarrow> Number_toString rt n
      | JStr s \<Rightarrow> s
      | _ \<Rightarrow> [])"

definition call_method :: "runtime \<Rightarrow> string \<Rightarrow> jsval \<Rightarrow> jsval option" where
  \<comment> \<open>A built-in function called, without arguments, as a method of a plain object:
      \<^verbatim>\<open>Object.prototype.toString\<close> returns \<^verbatim>\<open>"[object Object]"\<close> and
      \<^verbatim>\<open>Object.prototype.valueOf\<close> the object itself. \<open>None\<close>: the call throws.\<close>
  "call_method rt f this =
     (if f = ''Object.prototype.toString'' then Some (JStr ''[object Object]'')
      else if f = ''Object.prototype.valueOf'' then Some this
      else call_builtin rt f this)"

fun try_methods :: "runtime \<Rightarrow> jsval \<Rightarrow> string list \<Rightarrow> js_error + jsval" where
  \<comment> \<open>OrdinaryToPrimitive: the first of the named methods that is callable and returns a
      primitive value gives the result; a TypeError when none does.\<close>
  "try_methods rt obj [] = Inl TypeError"
| "try_methods rt obj (name # names) =
     (case get_prop rt obj name of
        JFun f \<Rightarrow>
          (case call_method rt f obj of
             None \<Rightarrow> Inl TypeError
           | Some r \<Rightarrow> (if is_primitive r then Inr r else try_methods rt obj names))
      | _ \<Rightarrow> try_methods rt obj names)"

definition method_order :: "hint \<Rightarrow> string list" where
  "method_order h =
     (case h of HintString \<Rightarrow> [''toString'', ''valueOf''] | HintNumber \<Rightarrow> [''valueOf'', ''toString''])"

fun sequence :: "(js_error + 'a) list \<Rightarrow> js_error + 'a list" where
  \<comment> \<open>The results in order, or the first exception.\<close>
  "sequence [] = Inr []"
| "sequence (r # rs) =
     (case r of
        Inl e \<Rightarrow> Inl e
      | Inr x \<Rightarrow> (case sequence rs of Inl e \<Rightarrow> Inl e | Inr xs \<Rightarrow> Inr (x # xs)))"

fun to_primitive :: "runtime \<Rightarrow> hint \<Rightarrow> jsval \<Rightarrow> js_error + jsval" where
  \<comment> \<open>ToPrimitive. A plain object is converted by its \<^verbatim>\<open>toString\<close> and
      \<^verbatim>\<open>valueOf\<close>, own or inherited, in the order of the hint (the default hint of
      \<^verbatim>\<open>+\<close> is the number hint). An array is converted by
      \<^verbatim>\<open>Array.prototype.toString\<close>: its elements as strings joined by commas,
      \<^verbatim>\<open>null\<close> and \<^verbatim>\<open>undefined\<close> elements as nothing. A built-in function gives its
      source text.\<close>
  "to_primitive rt h (JObj ps) = try_methods rt (JObj ps) (method_order h)"
| "to_primitive rt h (JArr xs) =
     (case sequence
             (map (\<lambda>x. if x = JNull \<or> x = JUndefined then Inr []
                        else case to_primitive rt HintString x of
                               Inl e \<Rightarrow> Inl e
                             | Inr p \<Rightarrow> Inr (prim_to_string rt p)) xs) of
        Inl e \<Rightarrow> Inl e
      | Inr ss \<Rightarrow> Inr (JStr (join_comma ss)))"
| "to_primitive rt h (JFun n) = Inr (JStr (function_source rt n))"
| "to_primitive rt h (JProto n) = Inr (prototype_primitive rt n h)"
| "to_primitive rt h JUndefined = Inr JUndefined"
| "to_primitive rt h JNull = Inr JNull"
| "to_primitive rt h (JBool b) = Inr (JBool b)"
| "to_primitive rt h (JNum n) = Inr (JNum n)"
| "to_primitive rt h (JStr s) = Inr (JStr s)"

definition to_string :: "runtime \<Rightarrow> jsval \<Rightarrow> js_error + string" where
  \<comment> \<open>ToString, as \<^verbatim>\<open>String(v)\<close> and a template string apply it.\<close>
  "to_string rt v = bind (to_primitive rt HintString v) (\<lambda>p. Inr (prim_to_string rt p))"

definition plus_string :: "runtime \<Rightarrow> jsval \<Rightarrow> js_error + string" where
  \<comment> \<open>The string an operand of \<^verbatim>\<open>+\<close> contributes when the other operand is a string.\<close>
  "plus_string rt v = bind (to_primitive rt HintNumber v) (\<lambda>p. Inr (prim_to_string rt p))"

definition prim_to_number :: "runtime \<Rightarrow> jsval \<Rightarrow> jsnum" where
  \<comment> \<open>ToNumber of a primitive value.\<close>
  "prim_to_number rt p =
     (case p of
        JUndefined \<Rightarrow> NaN
      | JNull \<Rightarrow> Fin 0
      | JBool b \<Rightarrow> (if b then Fin 1 else Fin 0)
      | JNum n \<Rightarrow> n
      | JStr s \<Rightarrow> Number_of_string rt s
      | _ \<Rightarrow> NaN)"

definition to_number :: "runtime \<Rightarrow> jsval \<Rightarrow> js_error + jsnum" where
  \<comment> \<open>\<^verbatim>\<open>Number(v)\<close>\<close>
  "to_number rt v = bind (to_primitive rt HintNumber v) (\<lambda>p. Inr (prim_to_number rt p))"

fun num_less :: "jsnum \<Rightarrow> jsnum \<Rightarrow> bool" where
  \<comment> \<open>\<open><\<close> on numbers, neither of them NaN.\<close>
  "num_less (Fin a) (Fin b) = (a < b)"
| "num_less NegInf b = (b \<noteq> NegInf \<and> b \<noteq> NaN)"
| "num_less a PosInf = (a \<noteq> PosInf \<and> a \<noteq> NaN)"
| "num_less a b = False"

fun str_less :: "string \<Rightarrow> string \<Rightarrow> bool" where
  \<comment> \<open>Strings compare by code units, a proper prefix first.\<close>
  "str_less [] [] = False"
| "str_less [] (y # ys) = True"
| "str_less (x # xs) [] = False"
| "str_less (x # xs) (y # ys) =
     (if x = y then str_less xs ys else (of_char x :: nat) < of_char y)"

definition js_less :: "runtime \<Rightarrow> jsval \<Rightarrow> jsval \<Rightarrow> js_error + bool option" where
  \<comment> \<open>The abstract relational comparison \<^verbatim>\<open>a < b\<close>; \<open>None\<close> is its \<^verbatim>\<open>undefined\<close>
      result, when an operand converts to NaN. Two strings compare as strings, anything
      else as numbers.\<close>
  "js_less rt a b =
     bind (to_primitive rt HintNumber a) (\<lambda>pa.
     bind (to_primitive rt HintNumber b) (\<lambda>pb.
       case (pa, pb) of
         (JStr s, JStr t) \<Rightarrow> Inr (Some (str_less s t))
       | _ \<Rightarrow>
           (let na = prim_to_number rt pa; nb = prim_to_number rt pb
            in Inr (if na = NaN \<or> nb = NaN then None else Some (num_less na nb)))))"

definition js_ge :: "runtime \<Rightarrow> jsval \<Rightarrow> jsval \<Rightarrow> js_error + bool" where
  \<comment> \<open>\<^verbatim>\<open>a >= b\<close>: \<^verbatim>\<open>a < b\<close> is false (and not undefined).\<close>
  "js_ge rt a b = bind (js_less rt a b) (\<lambda>r. Inr (r = Some False))"

definition js_le :: "runtime \<Rightarrow> jsval \<Rightarrow> jsval \<Rightarrow> js_error + bool" where
  \<comment> \<open>\<^verbatim>\<open>a <= b\<close>: \<^verbatim>\<open>b < a\<close> is false (and not undefined).\<close>
  "js_le rt a b = bind (js_less rt b a) (\<lambda>r. Inr (r = Some False))"

section \<open>The \<^verbatim>\<open>x-empty\<close> keyword\<close>

text \<open>
  Registered in the constructor with \<^verbatim>\<open>type: 'array'\<close> and the code
  \<^verbatim>\<open>cxt.pass(data.length===1 && data[0]===null)\<close>. The code never reads the
  annotation's value. Ajv applies a keyword that declares a type only to data of that type.
\<close>

definition x_empty_code :: "jsval list \<Rightarrow> bool" where
  "x_empty_code data = (length data = 1 \<and> arr_index data 0 = JNull)"

definition x_empty_keyword :: "jsval \<Rightarrow> jsval \<Rightarrow> bool" where
  "x_empty_keyword schemaValue data =
     (case array_elements data of Some xs \<Rightarrow> x_empty_code xs | None \<Rightarrow> True)"

section \<open>The \<^verbatim>\<open>x-range\<close> keyword\<close>

text \<open>
  Registered in the constructor with \<^verbatim>\<open>type: ['string', 'integer']\<close>. The code it
  generates is
  \<^verbatim>\<open>
    let valid = false
    let num = data
    if (typeof num === 'string') { num = BigInt(num) }
    for (const range of schemaValue) {
      if (data >= range.min && data <= range.max) { valid = true; break }
    }
  \<close>
  when the \<^verbatim>\<open>x-type\<close> of the schema that holds the annotation is \<^verbatim>\<open>int64\<close> or
  \<^verbatim>\<open>uint64\<close>, and the same with \<^verbatim>\<open>Number(num)\<close> in place of \<^verbatim>\<open>BigInt(num)\<close>
  otherwise. The validator goes on when \<^verbatim>\<open>valid\<close> is true. The loop compares
  \<^verbatim>\<open>data\<close>; \<^verbatim>\<open>num\<close> is assigned and never read.
\<close>

datatype numeric = Plain jsval | Big int

definition x_range_num :: "runtime \<Rightarrow> jsval \<Rightarrow> jsval \<Rightarrow> js_error + numeric" where
  "x_range_num rt parentSchema data =
     (case data of
        JStr s \<Rightarrow>
          (let xType = get_prop rt parentSchema ''x-type''
           in if xType = JStr ''int64'' \<or> xType = JStr ''uint64''
              then (case BigInt_of_string rt s of
                      None \<Rightarrow> Inl SyntaxError
                    | Some i \<Rightarrow> Inr (Big i))
              else Inr (Plain (JNum (Number_of_string rt s))))
      | _ \<Rightarrow> Inr (Plain data))"

fun x_range_loop :: "runtime \<Rightarrow> jsval \<Rightarrow> jsval list \<Rightarrow> js_error + bool" where
  "x_range_loop rt data [] = Inr False"
| "x_range_loop rt data (rng # ranges) =
     (if nullish rng then Inl TypeError
      else bind (js_ge rt data (get_prop rt rng ''min'')) (\<lambda>above.
             if \<not> above then x_range_loop rt data ranges
             else bind (js_le rt data (get_prop rt rng ''max'')) (\<lambda>below.
                    if below then Inr True else x_range_loop rt data ranges)))"

definition x_range_code :: "runtime \<Rightarrow> jsval \<Rightarrow> jsval list \<Rightarrow> jsval \<Rightarrow> js_error + bool" where
  "x_range_code rt parentSchema schemaValue data =
     (case x_range_num rt parentSchema data of
        Inl e \<Rightarrow> Inl e
      | Inr num \<Rightarrow> x_range_loop rt data schemaValue)"

definition is_integer :: "jsval \<Rightarrow> bool" where
  \<comment> \<open>Ajv's data type \<^verbatim>\<open>integer\<close>: a finite number without a fraction.\<close>
  "is_integer v = (case v of JNum (Fin q) \<Rightarrow> is_integral q | _ \<Rightarrow> False)"

definition is_string :: "jsval \<Rightarrow> bool" where
  "is_string v = (case v of JStr _ \<Rightarrow> True | _ \<Rightarrow> False)"

definition x_range_keyword :: "runtime \<Rightarrow> jsval \<Rightarrow> jsval list \<Rightarrow> jsval \<Rightarrow> bool" where
  \<comment> \<open>The keyword as Ajv applies it: to strings and integers only; the validator goes on
      when the code ends with \<^verbatim>\<open>valid\<close> true.\<close>
  "x_range_keyword rt parentSchema schemaValue data =
     (if is_string data \<or> is_integer data
      then x_range_code rt parentSchema schemaValue data = Inr True
      else True)"

text \<open>
  The keyword as the specification words it: the value is converted first, and the
  converted value is compared with the bounds. A BigInt compares with a number by value,
  and with a string through the BigInt the string denotes. A comparison that throws does
  not place the value within the range.
\<close>

definition big_less :: "runtime \<Rightarrow> int \<Rightarrow> jsval \<Rightarrow> bool option" where
  \<comment> \<open>\<^verbatim>\<open>i < b\<close> for a BigInt \<open>i\<close>\<close>
  "big_less rt i b =
     (case to_primitive rt HintNumber b of
        Inl e \<Rightarrow> None
      | Inr (JStr t) \<Rightarrow> map_option (\<lambda>j. i < j) (BigInt_of_string rt t)
      | Inr pb \<Rightarrow>
          (case prim_to_number rt pb of
             NaN \<Rightarrow> None
           | PosInf \<Rightarrow> Some True
           | NegInf \<Rightarrow> Some False
           | Fin q \<Rightarrow> Some (of_int i < q)))"

definition less_big :: "runtime \<Rightarrow> jsval \<Rightarrow> int \<Rightarrow> bool option" where
  \<comment> \<open>\<^verbatim>\<open>b < i\<close> for a BigInt \<open>i\<close>\<close>
  "less_big rt b i =
     (case to_primitive rt HintNumber b of
        Inl e \<Rightarrow> None
      | Inr (JStr t) \<Rightarrow> map_option (\<lambda>j. j < i) (BigInt_of_string rt t)
      | Inr pb \<Rightarrow>
          (case prim_to_number rt pb of
             NaN \<Rightarrow> None
           | PosInf \<Rightarrow> Some False
           | NegInf \<Rightarrow> Some True
           | Fin q \<Rightarrow> Some (q < of_int i)))"

definition numeric_ge :: "runtime \<Rightarrow> numeric \<Rightarrow> jsval \<Rightarrow> bool" where
  "numeric_ge rt num b =
     (case num of Plain v \<Rightarrow> js_ge rt v b = Inr True | Big i \<Rightarrow> big_less rt i b = Some False)"

definition numeric_le :: "runtime \<Rightarrow> numeric \<Rightarrow> jsval \<Rightarrow> bool" where
  "numeric_le rt num b =
     (case num of Plain v \<Rightarrow> js_le rt v b = Inr True | Big i \<Rightarrow> less_big rt b i = Some False)"

definition within_some_range :: "runtime \<Rightarrow> numeric \<Rightarrow> jsval list \<Rightarrow> bool" where
  "within_some_range rt num ranges =
     list_ex (\<lambda>rng. numeric_ge rt num (get_prop rt rng ''min'')
                     \<and> numeric_le rt num (get_prop rt rng ''max'')) ranges"

definition x_range_as_specified :: "runtime \<Rightarrow> jsval \<Rightarrow> jsval list \<Rightarrow> jsval \<Rightarrow> bool" where
  "x_range_as_specified rt parentSchema schemaValue data =
     (case x_range_num rt parentSchema data of
        Inl e \<Rightarrow> False
      | Inr num \<Rightarrow> within_some_range rt num schemaValue)"

section \<open>The \<^verbatim>\<open>x-key\<close> keyword\<close>

text \<open>
  \<^verbatim>\<open>validate\<close> (for every method but \<^verbatim>\<open>patch\<close>) and \<^verbatim>\<open>validateResponse\<close>
  register it with \<^verbatim>\<open>type: 'array'\<close>. The code it generates is
  \<^verbatim>\<open>
    const keys = schema.split(',')
    const idSet = new Set()
    let valid = true
    for (const item of data) {
      let id = ""
      for (const i in keys) {
        const key = keys[i]
        if (item[key] === undefined || item[key] === null) {
          <error: Key '${key}' is not present in array item>
          break
        }
        if (i === '0') id = item[key]
        else id = id + ',' + item[key]
      }
      if (idSet.has(id)) {
        <error: Array item has redundant key '${id}'>
        break
      }
      idSet.add(id)
    }
  \<close>
  An error, as Ajv generates it, either ends the validator at once
  (\<^verbatim>\<open>validate.errors = [..]; return false\<close>) or, under the option \<^verbatim>\<open>allErrors\<close>
  and inside a composite rule, is appended to the list of errors and the code goes on:
  \<open>appending\<close> below. \<^verbatim>\<open>valid\<close> stays true, so the keyword fails exactly when it has
  reported an error.
\<close>

definition split_comma :: "string \<Rightarrow> string list" where
  \<comment> \<open>\<^verbatim>\<open>schema.split(',')\<close>\<close>
  "split_comma s = split_on (CHR '','') s"

datatype x_key_error = KeyNotPresent string | RedundantKey jsval

definition errorMessage :: "runtime \<Rightarrow> x_key_error \<Rightarrow> js_error + string" where
  "errorMessage rt e =
     (case e of
        KeyNotPresent key \<Rightarrow>
          Inr (''Key '' @ [CHR 0x27] @ key @ [CHR 0x27] @ '' is not present in array item'')
      | RedundantKey ident \<Rightarrow>
          bind (plus_string rt ident) (\<lambda>s.
            Inr (''Array item has redundant key '' @ [CHR 0x27] @ s @ [CHR 0x27])))"

definition same_value_zero :: "jsval \<Rightarrow> jsval \<Rightarrow> bool" where
  \<comment> \<open>The equality of \<^verbatim>\<open>Set\<close>: primitive values by value, an object only with itself. The
      identifiers compared are read from different elements of the payload: two plain
      objects or arrays among them are different objects, two built-in objects are the same
      object when they have the same name.\<close>
  "same_value_zero a b = (case a of JObj _ \<Rightarrow> False | JArr _ \<Rightarrow> False | _ \<Rightarrow> a = b)"

definition set_has :: "jsval list \<Rightarrow> jsval \<Rightarrow> bool" where
  "set_has idSet v = list_ex (\<lambda>x. same_value_zero x v) idSet"

fun x_key_keys ::
  "runtime \<Rightarrow> jsval \<Rightarrow> nat \<Rightarrow> string list \<Rightarrow> jsval \<Rightarrow> js_error + jsval \<times> string option" where
  \<comment> \<open>The inner loop, from index \<open>i\<close> on: the identifier built, and the key it stopped at;
      or the TypeError of a value that \<^verbatim>\<open>+\<close> cannot convert to a string.\<close>
  "x_key_keys rt item i [] ident = Inr (ident, None)"
| "x_key_keys rt item i (key # keys) ident =
     (if get_prop rt item key = JUndefined \<or> get_prop rt item key = JNull then Inr (ident, Some key)
      else if i = 0 then x_key_keys rt item (Suc i) keys (get_prop rt item key)
      else bind (plus_string rt ident) (\<lambda>s.
           bind (plus_string rt (get_prop rt item key)) (\<lambda>t.
             x_key_keys rt item (Suc i) keys (JStr (s @ '','' @ t)))))"

fun x_key_items ::
  "runtime \<Rightarrow> bool \<Rightarrow> string list \<Rightarrow> jsval list \<Rightarrow> jsval list \<Rightarrow> js_error + x_key_error list" where
  \<comment> \<open>The outer loop: the errors reported, in order, or the TypeError of reading a key of
      an item that is \<^verbatim>\<open>null\<close> or \<^verbatim>\<open>undefined\<close>, or of a conversion.\<close>
  "x_key_items rt appending keys [] idSet = Inr []"
| "x_key_items rt appending keys (item # items) idSet =
     (if nullish item \<and> keys \<noteq> [] then Inl TypeError
      else case x_key_keys rt item 0 keys (JStr []) of
             Inl e \<Rightarrow> Inl e
           | Inr (ident, Some key) \<Rightarrow>
               (if \<not> appending then Inr [KeyNotPresent key]
                else if set_has idSet ident then Inr [KeyNotPresent key, RedundantKey ident]
                else case x_key_items rt appending keys items (idSet @ [ident]) of
                       Inl e \<Rightarrow> Inl e
                     | Inr es \<Rightarrow> Inr (KeyNotPresent key # es))
           | Inr (ident, None) \<Rightarrow>
               (if set_has idSet ident then Inr [RedundantKey ident]
                else x_key_items rt appending keys items (idSet @ [ident])))"

definition x_key_code :: "runtime \<Rightarrow> bool \<Rightarrow> string \<Rightarrow> jsval list \<Rightarrow> js_error + x_key_error list" where
  "x_key_code rt appending schema data = x_key_items rt appending (split_comma schema) data []"

text \<open>
  What the loops compute. A named field is missing from an element when the element's value
  for it is \<^verbatim>\<open>undefined\<close> or \<^verbatim>\<open>null\<close>. When no field is missing and no conversion
  throws, the identifier the inner loop builds is, for one key, the value of the field
  itself, unconverted; for several keys, the string of the values in the declared order,
  each as \<^verbatim>\<open>+\<close> converts it, joined by commas.
\<close>

definition key_missing :: "runtime \<Rightarrow> jsval \<Rightarrow> string \<Rightarrow> bool" where
  "key_missing rt item key = (get_prop rt item key = JUndefined \<or> get_prop rt item key = JNull)"

definition text_of :: "js_error + string \<Rightarrow> string" where
  "text_of r = (case r of Inr s \<Rightarrow> s | Inl e \<Rightarrow> [])"

definition converts :: "runtime \<Rightarrow> jsval \<Rightarrow> bool" where
  \<comment> \<open>\<^verbatim>\<open>+\<close> converts the value to a string without throwing.\<close>
  "converts rt v = (case plus_string rt v of Inr s \<Rightarrow> True | Inl e \<Rightarrow> False)"

definition convertible :: "runtime \<Rightarrow> string list \<Rightarrow> jsval \<Rightarrow> bool" where
  \<comment> \<open>The inner loop converts nothing for one key; for several keys, the values of the
      element for the named fields are converted.\<close>
  "convertible rt keys item =
     (length keys \<le> 1 \<or> list_all (\<lambda>key. converts rt (get_prop rt item key)) keys)"

definition item_id :: "runtime \<Rightarrow> string list \<Rightarrow> jsval \<Rightarrow> jsval" where
  "item_id rt keys item =
     (case keys of
        [key] \<Rightarrow> get_prop rt item key
      | _ \<Rightarrow> JStr (join_comma (map (\<lambda>key. text_of (plus_string rt (get_prop rt item key))) keys)))"

definition seen_before :: "runtime \<Rightarrow> string list \<Rightarrow> jsval list \<Rightarrow> nat \<Rightarrow> bool" where
  \<comment> \<open>The identifier of element \<open>j\<close> is, as a \<^verbatim>\<open>Set\<close> compares, that of an earlier
      element.\<close>
  "seen_before rt keys items j =
     list_ex (\<lambda>i. same_value_zero (item_id rt keys (items ! i)) (item_id rt keys (items ! j)))
       [0..<j]"

definition offending :: "runtime \<Rightarrow> string list \<Rightarrow> jsval list \<Rightarrow> nat \<Rightarrow> bool" where
  "offending rt keys items j =
     (list_ex (key_missing rt (items ! j)) keys \<or> seen_before rt keys items j)"

definition x_key_report :: "runtime \<Rightarrow> string list \<Rightarrow> jsval \<Rightarrow> x_key_error" where
  \<comment> \<open>What is reported on an offending element: its first absent key field, or else its
      identifier as the duplicate.\<close>
  "x_key_report rt keys item =
     (case find (key_missing rt item) keys of
        Some key \<Rightarrow> KeyNotPresent key
      | None \<Rightarrow> RedundantKey (item_id rt keys item))"

section \<open>The Ajv instance\<close>

text \<open>
  The validator object owns one Ajv instance, \<^verbatim>\<open>this._ajv\<close>. What the source changes
  in it after the constructor is the definition of two keywords: \<^verbatim>\<open>readOnly\<close>, which
  Ajv itself declares as an annotation and \<^verbatim>\<open>validate\<close> replaces on every call, and
  \<^verbatim>\<open>x-key\<close>, which is unknown until \<^verbatim>\<open>validate\<close> or \<^verbatim>\<open>validateResponse\<close>
  registers it. \<^verbatim>\<open>allErrors\<close> is the caller's option of that name.
\<close>

datatype readOnly_def =
    ReadOnlyAnnotation  \<comment> \<open>\<^verbatim>\<open>addKeyword('readOnly')\<close>: no validation\<close>
  | ReadOnlyError       \<comment> \<open>the definition whose code is \<^verbatim>\<open>cxt.error()\<close>\<close>

datatype x_key_def =
    XKeyAnnotation      \<comment> \<open>\<^verbatim>\<open>addKeyword('x-key')\<close>: no validation\<close>
  | XKeyUnique          \<comment> \<open>the definition with the uniqueness code\<close>

record ajv =
  readOnly_kw :: readOnly_def
  x_key_kw :: "x_key_def option"
  allErrors :: bool

definition has_type :: "string \<Rightarrow> jsval \<Rightarrow> bool" where
  \<comment> \<open>Ajv's data types (numbers are finite under its default \<^verbatim>\<open>strictNumbers\<close>). An
      object is a value whose \<^verbatim>\<open>typeof\<close> is \<^verbatim>\<open>object\<close>, other than \<^verbatim>\<open>null\<close> and
      the arrays; a function has none of the types.\<close>
  "has_type t v =
     (if t = ''object''
      then (case v of JObj _ \<Rightarrow> True | JProto _ \<Rightarrow> array_elements v = None | _ \<Rightarrow> False)
      else if t = ''array'' then array_elements v \<noteq> None
      else if t = ''string'' then is_string v
      else if t = ''number'' then (case v of JNum (Fin _) \<Rightarrow> True | _ \<Rightarrow> False)
      else if t = ''integer'' then is_integer v
      else if t = ''boolean'' then (case v of JBool _ \<Rightarrow> True | _ \<Rightarrow> False)
      else if t = ''null'' then v = JNull
      else False)"

definition readOnly_types :: "string list" where
  "readOnly_types = [''string'', ''number'', ''integer'', ''boolean'', ''null'', ''object'', ''array'']"

definition type_keyword :: "jsval \<Rightarrow> jsval \<Rightarrow> bool" where
  "type_keyword schemaValue data =
     (case schemaValue of
        JUndefined \<Rightarrow> True
      | JStr t \<Rightarrow> has_type t data
      | JArr ts \<Rightarrow> list_ex (\<lambda>t. case t of JStr n \<Rightarrow> has_type n data | _ \<Rightarrow> False) ts
      | _ \<Rightarrow> False)"

definition required_keyword :: "runtime \<Rightarrow> jsval \<Rightarrow> jsval \<Rightarrow> bool" where
  \<comment> \<open>Applies to objects: every listed property is there (\<^verbatim>\<open>data[name] !== undefined\<close>,
      so an inherited member counts).\<close>
  "required_keyword rt schemaValue data =
     (case schemaValue of
        JUndefined \<Rightarrow> True
      | JArr names \<Rightarrow>
          (if has_type ''object'' data
           then list_all (\<lambda>n. case n of JStr name \<Rightarrow> get_prop rt data name \<noteq> JUndefined | _ \<Rightarrow> False) names
           else True)
      | _ \<Rightarrow> False)"

definition readOnly_keyword :: "ajv \<Rightarrow> jsval \<Rightarrow> jsval \<Rightarrow> bool" where
  \<comment> \<open>The error definition declares every JSON type, and its code reports an error
      whatever the annotation's value is.\<close>
  "readOnly_keyword a schemaValue data =
     (if schemaValue = JUndefined then True
      else case readOnly_kw a of
             ReadOnlyAnnotation \<Rightarrow> True
           | ReadOnlyError \<Rightarrow>
               (case schemaValue of
                  JBool _ \<Rightarrow> \<not> list_ex (\<lambda>t. has_type t data) readOnly_types
                | _ \<Rightarrow> False))"

definition x_key_keyword :: "runtime \<Rightarrow> ajv \<Rightarrow> jsval \<Rightarrow> jsval \<Rightarrow> bool" where
  \<comment> \<open>A schema with a keyword that is not registered does not compile (Ajv's strict mode).\<close>
  "x_key_keyword rt a schemaValue data =
     (if schemaValue = JUndefined then True
      else case x_key_kw a of
             None \<Rightarrow> False
           | Some XKeyAnnotation \<Rightarrow> True
           | Some XKeyUnique \<Rightarrow>
               (case schemaValue of
                  JStr schema \<Rightarrow>
                    (case array_elements data of
                       Some items \<Rightarrow> x_key_code rt (allErrors a) schema items = Inr []
                     | None \<Rightarrow> True)
                | _ \<Rightarrow> False))"

function accepts :: "runtime \<Rightarrow> ajv \<Rightarrow> jsval \<Rightarrow> jsval \<Rightarrow> bool" where
  \<comment> \<open>The validator compiled from a schema returns true. The schema is an object holding
      keywords of this fragment (\<^verbatim>\<open>type\<close>, \<^verbatim>\<open>properties\<close>, \<^verbatim>\<open>required\<close>,
      \<^verbatim>\<open>items\<close> and the four keywords of the source), or a boolean; other keywords are
      not interpreted. A keyword value Ajv refuses at compile time gives no validator, and a
      keyword whose code throws ends the validator without a result: in both cases nothing is
      accepted. \<^verbatim>\<open>properties\<close> checks a declared property when \<^verbatim>\<open>data[p]\<close> is not
      \<^verbatim>\<open>undefined\<close>, and passes over a property named \<^verbatim>\<open>__proto__\<close>.\<close>
  "accepts rt a (JBool b) data = b"
| "accepts rt a (JObj kws) data =
     (type_keyword (assoc kws ''type'') data
      \<and> (case assoc kws ''properties'' of
           JUndefined \<Rightarrow> True
         | JObj props \<Rightarrow>
             (if has_type ''object'' data
              then list_all (\<lambda>p. get_prop rt data p = JUndefined
                                  \<or> accepts rt a (assoc props p) (get_prop rt data p))
                     (filter (\<lambda>p. p \<noteq> ''__proto__'') (map fst props))
              else True)
         | _ \<Rightarrow> False)
      \<and> required_keyword rt (assoc kws ''required'') data
      \<and> (if assoc kws ''items'' = JUndefined then True
          else case array_elements data of
                 Some xs \<Rightarrow> list_all (accepts rt a (assoc kws ''items'')) xs
               | None \<Rightarrow> True)
      \<and> readOnly_keyword a (assoc kws ''readOnly'') data
      \<and> x_key_keyword rt a (assoc kws ''x-key'') data
      \<and> (case assoc kws ''x-empty'' of
           JUndefined \<Rightarrow> True
         | JBool b \<Rightarrow> x_empty_keyword (JBool b) data
         | _ \<Rightarrow> False)
      \<and> (case assoc kws ''x-range'' of
           JUndefined \<Rightarrow> True
         | JArr ranges \<Rightarrow> x_range_keyword rt (JObj kws) ranges data
         | _ \<Rightarrow> False))"
| "accepts rt a JUndefined data = False"
| "accepts rt a JNull data = False"
| "accepts rt a (JNum n) data = False"
| "accepts rt a (JStr s) data = False"
| "accepts rt a (JArr xs) data = False"
| "accepts rt a (JFun n) data = False"
| "accepts rt a (JProto n) data = False"
  by pat_completeness auto
termination
proof (relation "measure (\<lambda>(rt, a, schema, data). size schema)", goal_cases)
  case 1
  show ?case by simp
next
  case (2 rt a kws data props p)
  have "size (assoc ps k) < Suc (size_list (size_prod (\<lambda>_. 0) size) ps)" for ps k
    by (induction ps) (auto simp: less_Suc_eq_le)
  from this [of kws "''properties''"] this [of props p] 2 show ?case
    by simp
next
  case (3 rt a kws data xs x)
  have "size (assoc ps k) < Suc (size_list (size_prod (\<lambda>_. 0) size) ps)" for ps k
    by (induction ps) (auto simp: less_Suc_eq_le)
  from this [of kws "''items''"] show ?case
    by simp
qed

section \<open>The version check of the constructor\<close>

text \<open>
  The constructor calls \<^verbatim>\<open>semver.satisfies(openApiDocument.openapi, "^3.0.0")\<close> of the
  npm package \<^verbatim>\<open>semver\<close> (version 7). A version is read by the package's strict
  grammar: at most 256 characters, white space trimmed, an optional \<^verbatim>\<open>v\<close>, three
  numeric identifiers without leading zeros, each at most \<open>2^53 - 1\<close>, an optional
  pre-release tag after \<^verbatim>\<open>-\<close> and optional build metadata after \<^verbatim>\<open>+\<close>.
  The range \<^verbatim>\<open>^3.0.0\<close> is the comparator set \<^verbatim>\<open>>=3.0.0 <4.0.0-0\<close>.
\<close>

datatype pre_id = NumId nat | StrId string

record semver =
  major :: nat
  minor :: nat
  patch :: nat
  prerelease :: "pre_id list"

definition is_space :: "char \<Rightarrow> bool" where
  \<comment> \<open>The white space \<^verbatim>\<open>trim\<close> removes, among the code units below 256.\<close>
  "is_space c = ((of_char c :: nat) \<in> {9, 10, 11, 12, 13, 32, 160})"

definition trim :: "string \<Rightarrow> string" where
  "trim s = rev (dropWhile is_space (rev (dropWhile is_space s)))"

definition is_alnum_hyphen :: "char \<Rightarrow> bool" where
  \<comment> \<open>\<^verbatim>\<open>[0-9A-Za-z-]\<close>\<close>
  "is_alnum_hyphen c =
     (is_digit c \<or> (65 \<le> (of_char c :: nat) \<and> (of_char c :: nat) \<le> 90)
      \<or> (97 \<le> (of_char c :: nat) \<and> (of_char c :: nat) \<le> 122) \<or> c = CHR ''-'')"

definition MAX_SAFE_INTEGER :: nat where
  "MAX_SAFE_INTEGER = 9007199254740991"

definition numeric_identifier :: "string \<Rightarrow> bool" where
  \<comment> \<open>\<^verbatim>\<open>0|[1-9]\d*\<close>\<close>
  "numeric_identifier s = (all_digits s \<and> (s = ''0'' \<or> hd s \<noteq> CHR ''0''))"

definition prerelease_identifier :: "string \<Rightarrow> bool" where
  \<comment> \<open>\<^verbatim>\<open>0|[1-9]\d*|\d*[a-zA-Z-][a-zA-Z0-9-]*\<close>\<close>
  "prerelease_identifier s =
     (numeric_identifier s \<or> (s \<noteq> [] \<and> list_all is_alnum_hyphen s \<and> \<not> list_all is_digit s))"

definition build_identifier :: "string \<Rightarrow> bool" where
  \<comment> \<open>\<^verbatim>\<open>[0-9A-Za-z-]+\<close>\<close>
  "build_identifier s = (s \<noteq> [] \<and> list_all is_alnum_hyphen s)"

definition cut_at :: "char \<Rightarrow> string \<Rightarrow> string \<times> string option" where
  \<comment> \<open>The text before the first \<open>c\<close>, and the text after it when there is one.\<close>
  "cut_at c s =
     (takeWhile (\<lambda>x. x \<noteq> c) s,
      case dropWhile (\<lambda>x. x \<noteq> c) s of [] \<Rightarrow> None | _ # rest \<Rightarrow> Some rest)"

definition to_pre_id :: "string \<Rightarrow> pre_id" where
  \<comment> \<open>A pre-release identifier of digits only is kept as a number.\<close>
  "to_pre_id s =
     (if all_digits s \<and> nat_of_digits s < MAX_SAFE_INTEGER then NumId (nat_of_digits s)
      else StrId s)"

definition SemVer :: "string \<Rightarrow> semver option" where
  \<comment> \<open>\<^verbatim>\<open>new SemVer(version)\<close>; \<open>None\<close> when it throws.\<close>
  "SemVer version =
     (if 256 < length version then None
      else
        let t = trim version;
            u = (case t of c # r \<Rightarrow> (if c = CHR ''v'' then r else t) | [] \<Rightarrow> t);
            with_pre = fst (cut_at (CHR ''+'') u);
            build = snd (cut_at (CHR ''+'') u);
            main = fst (cut_at (CHR ''-'') with_pre);
            pre = snd (cut_at (CHR ''-'') with_pre)
        in if (case build of None \<Rightarrow> False
                 | Some b \<Rightarrow> \<not> list_all build_identifier (split_on (CHR ''.'') b)) then None
           else if (case pre of None \<Rightarrow> False
                      | Some p \<Rightarrow> \<not> list_all prerelease_identifier (split_on (CHR ''.'') p)) then None
           else case split_on (CHR ''.'') main of
                  [a, b, c] \<Rightarrow>
                    (if numeric_identifier a \<and> numeric_identifier b \<and> numeric_identifier c
                        \<and> nat_of_digits a \<le> MAX_SAFE_INTEGER
                        \<and> nat_of_digits b \<le> MAX_SAFE_INTEGER
                        \<and> nat_of_digits c \<le> MAX_SAFE_INTEGER
                     then Some \<lparr>major = nat_of_digits a, minor = nat_of_digits b,
                                patch = nat_of_digits c,
                                prerelease = (case pre of None \<Rightarrow> []
                                              | Some p \<Rightarrow> map to_pre_id (split_on (CHR ''.'') p))\<rparr>
                     else None)
                | _ \<Rightarrow> None)"

definition id_number :: "pre_id \<Rightarrow> nat option" where
  \<comment> \<open>The number an identifier compares as, when it is written in digits only: a long
      one that was kept as a string is converted to a double for the comparison.\<close>
  "id_number a =
     (case a of
        NumId n \<Rightarrow> Some n
      | StrId s \<Rightarrow> (if all_digits s then Some (round_double (nat_of_digits s)) else None))"

fun id_text :: "pre_id \<Rightarrow> string" where
  "id_text (NumId n) = string_of_nat n"
| "id_text (StrId s) = s"

definition compareIdentifiers :: "pre_id \<Rightarrow> pre_id \<Rightarrow> int" where
  \<comment> \<open>Numbers by value and below every other identifier, the others as strings.\<close>
  "compareIdentifiers a b =
     (case (id_number a, id_number b) of
        (Some x, Some y) \<Rightarrow> (if x = y then 0 else if x < y then -1 else 1)
      | (Some x, None) \<Rightarrow> -1
      | (None, Some y) \<Rightarrow> 1
      | (None, None) \<Rightarrow>
          (if id_text a = id_text b then 0 else if str_less (id_text a) (id_text b) then -1 else 1))"

fun comparePreList :: "pre_id list \<Rightarrow> pre_id list \<Rightarrow> int" where
  \<comment> \<open>Identifier by identifier; the list that ends first is the smaller.\<close>
  "comparePreList [] [] = 0"
| "comparePreList (a # as) [] = 1"
| "comparePreList [] (b # bs) = -1"
| "comparePreList (a # as) (b # bs) =
     (if a = b then comparePreList as bs else compareIdentifiers a b)"

definition comparePre :: "semver \<Rightarrow> semver \<Rightarrow> int" where
  \<comment> \<open>A version without a pre-release tag is above its pre-releases.\<close>
  "comparePre v w =
     (if prerelease v \<noteq> [] \<and> prerelease w = [] then -1
      else if prerelease v = [] \<and> prerelease w \<noteq> [] then 1
      else comparePreList (prerelease v) (prerelease w))"

definition compareMain :: "semver \<Rightarrow> semver \<Rightarrow> int" where
  "compareMain v w =
     (if major v \<noteq> major w then (if major v < major w then -1 else 1)
      else if minor v \<noteq> minor w then (if minor v < minor w then -1 else 1)
      else if patch v \<noteq> patch w then (if patch v < patch w then -1 else 1)
      else 0)"

definition compare :: "semver \<Rightarrow> semver \<Rightarrow> int" where
  "compare v w = (if compareMain v w \<noteq> 0 then compareMain v w else comparePre v w)"

datatype comparator = GE semver | LT semver

fun comparator_semver :: "comparator \<Rightarrow> semver" where
  "comparator_semver (GE w) = w"
| "comparator_semver (LT w) = w"

fun comparator_test :: "comparator \<Rightarrow> semver \<Rightarrow> bool" where
  "comparator_test (GE w) v = (0 \<le> compare v w)"
| "comparator_test (LT w) v = (compare v w < 0)"

definition testSet :: "comparator list \<Rightarrow> semver \<Rightarrow> bool" where
  \<comment> \<open>Every comparator holds; and a version with a pre-release tag is only admitted by a
      comparator that carries a tag on the same major, minor and patch numbers.\<close>
  "testSet cs v =
     (list_all (\<lambda>c. comparator_test c v) cs
      \<and> (if prerelease v \<noteq> []
          then list_ex (\<lambda>c. prerelease (comparator_semver c) \<noteq> []
                            \<and> major (comparator_semver c) = major v
                            \<and> minor (comparator_semver c) = minor v
                            \<and> patch (comparator_semver c) = patch v) cs
          else True))"

definition caret_3_0_0 :: "comparator list" where
  \<comment> \<open>\<^verbatim>\<open>^3.0.0\<close>, that is \<^verbatim>\<open>>=3.0.0 <4.0.0-0\<close>\<close>
  "caret_3_0_0 =
     [GE \<lparr>major = 3, minor = 0, patch = 0, prerelease = []\<rparr>,
      LT \<lparr>major = 4, minor = 0, patch = 0, prerelease = [NumId 0]\<rparr>]"

definition satisfies :: "jsval \<Rightarrow> comparator list \<Rightarrow> js_error + bool" where
  \<comment> \<open>\<^verbatim>\<open>semver.satisfies(version, range)\<close>: false for a falsy version and for a string
      that is no version; a value that is neither falsy nor a string reaches the comparison,
      which throws a TypeError.\<close>
  "satisfies version cs =
     (if \<not> truthy version then Inr False
      else case version of
             JStr s \<Rightarrow> (case SemVer s of None \<Rightarrow> Inr False | Some v \<Rightarrow> Inr (testSet cs v))
           | _ \<Rightarrow> Inl TypeError)"

section \<open>Response normalization\<close>

definition resolveResponse :: "runtime \<Rightarrow> jsval \<Rightarrow> js_error + jsnum \<times> jsval \<times> jsval" where
  \<comment> \<open>The object \<^verbatim>\<open>{statusCode, body, headers}\<close> it returns is the triple.
      \<^verbatim>\<open>Number(..)\<close> throws for an object that has no conversion.\<close>
  "resolveResponse rt res =
     (if nullish res then Inl TypeError
      else
        bind (to_number rt (js_or (get_prop rt res ''statusCode'') (get_prop rt res ''status'')))
          (\<lambda>statusCodeNum.
        let statusCode = (if statusCodeNum = NaN then None else Some statusCodeNum);
            body = js_or (get_prop rt res ''body'') (get_prop rt res ''data'');
            headers = get_prop rt res ''headers''
        in case statusCode of
             None \<Rightarrow> Inl TypeError
           | Some n \<Rightarrow>
               (if nullish body \<or> nullish headers then Inl TypeError
                else Inr (n, body, headers))))"

section \<open>The validator class\<close>

text \<open>
  The functions the class imports from \<^verbatim>\<open>./schema-utils\<close> and \<^verbatim>\<open>./parameters\<close>
  are not among the sources. They are parameters of the model, each free to throw. So is
  the set-up of the Ajv instance in the constructor (\<^verbatim>\<open>new Ajv\<close> on the caller's
  \<^verbatim>\<open>ajvOptions\<close> merged with the formats of \<^verbatim>\<open>./formats\<close>, \<^verbatim>\<open>addFormats\<close>, and
  the \<^verbatim>\<open>addKeyword\<close> calls): \<open>Ajv_setup\<close> is the exception these calls throw for a
  value of \<^verbatim>\<open>options.ajvOptions\<close>, or \<open>None\<close> when they throw none.
\<close>

record modules =
  resolveReference :: "jsval \<Rightarrow> jsval \<Rightarrow> js_error + jsval"
  mapOasSchemaToJsonSchema :: "jsval \<Rightarrow> jsval \<Rightarrow> bool \<Rightarrow> bool \<Rightarrow> js_error + jsval"
  parameters_resolve :: "jsval \<Rightarrow> jsval \<Rightarrow> jsval \<Rightarrow> js_error + jsval"
  parameters_buildSchema :: "jsval \<Rightarrow> js_error + jsval"
  Ajv_setup :: "jsval \<Rightarrow> js_error option"

record OpenApiValidator =
  ajv_instance :: ajv
  document :: jsval
  disallowAdditionalPropertiesByDefault :: bool

definition merged_ajvOptions :: "jsval \<Rightarrow> (string \<times> jsval) list" where
  \<comment> \<open>\<^verbatim>\<open>{discriminator: true, ...options.ajvOptions}\<close>: the options Ajv is built with,
      the formats apart.\<close>
  "merged_ajvOptions userOptions = obj_spread [(''discriminator'', JBool True)] userOptions"

definition constructor :: "modules \<Rightarrow> runtime \<Rightarrow> jsval \<Rightarrow> jsval \<Rightarrow> js_error + OpenApiValidator" where
  \<comment> \<open>\<open>options\<close> is \<^verbatim>\<open>{}\<close> when the caller passes none (\<^verbatim>\<open>undefined\<close>); reading
      a property of \<^verbatim>\<open>null\<close> options throws. The instance reports all errors when the
      merged options hold a truthy \<^verbatim>\<open>allErrors\<close>.\<close>
  "constructor m rt openApiDocument options =
     (if nullish openApiDocument then Inl TypeError
      else case satisfies (get_prop rt openApiDocument ''openapi'') caret_3_0_0 of
             Inl e \<Rightarrow> Inl e
           | Inr False \<Rightarrow>
               bind (to_string rt (js_or (get_prop rt openApiDocument ''openapi'')
                                         (get_prop rt openApiDocument ''swagger'')))
                 (\<lambda>version. Inl (Error (''Unsupported OpenAPI / Swagger version='' @ version)))
           | Inr True \<Rightarrow>
               (let opts = (if options = JUndefined then JObj [] else options)
                in if opts = JNull then Inl TypeError
                   else case Ajv_setup m (get_prop rt opts ''ajvOptions'') of
                          Some e \<Rightarrow> Inl e
                        | None \<Rightarrow>
                            Inr \<lparr>ajv_instance =
                                   \<lparr>readOnly_kw = ReadOnlyAnnotation, x_key_kw = None,
                                    allErrors =
                                      truthy (assoc (merged_ajvOptions (get_prop rt opts ''ajvOptions''))
                                                ''allErrors'')\<rparr>,
                                 document = openApiDocument,
                                 disallowAdditionalPropertiesByDefault =
                                   (get_prop rt opts ''disallowAdditionalPropertiesByDefault''
                                      = JBool True)\<rparr>))"

definition getPathItemObject :: "runtime \<Rightarrow> OpenApiValidator \<Rightarrow> string \<Rightarrow> js_error + jsval" where
  "getPathItemObject rt this path =
     (if lodash_has rt (document this) [''paths'', path]
      then Inr (get_prop rt (get_prop rt (document this) ''paths'') path)
      else Inl (Error (''Path='' @ path @ '' not found from OpenAPI document'')))"

definition getOperationObject ::
  "runtime \<Rightarrow> OpenApiValidator \<Rightarrow> string \<Rightarrow> string \<Rightarrow> js_error + jsval" where
  "getOperationObject rt this method path =
     (if lodash_has rt (document this) [''paths'', path, method]
      then Inr (get_prop rt (get_prop rt (get_prop rt (document this) ''paths'') path) method)
      else Inl (Error (''Path='' @ path @ '' with method='' @ method
                       @ '' not found from OpenAPI document'')))"

definition getResponseObject ::
  "modules \<Rightarrow> runtime \<Rightarrow> OpenApiValidator \<Rightarrow> jsval \<Rightarrow> jsnum \<Rightarrow> js_error + jsval" where
  "getResponseObject m rt this op statusCode =
     (let statusCodeStr = Number_toString rt statusCode;
          exact = lodash_get rt op [''responses'', statusCodeStr] JNull;
          field = prim_to_string rt (get_prop rt (JStr statusCodeStr) ''0'') @ ''XX'';
          by_class = (if exact = JNull then lodash_get rt op [''responses'', field] JNull else exact);
          responseObject =
            (if by_class = JNull then lodash_get rt op [''responses'', ''default''] JNull else by_class)
      in if responseObject = JNull
         then Inl (Error (''No response object found with statusCode='' @ statusCodeStr))
         else resolveReference m (document this) responseObject)"

definition media_type :: string where
  "media_type = ''application/yang-data+json''"

definition body_schema_of :: "runtime \<Rightarrow> jsval \<Rightarrow> jsval" where
  \<comment> \<open>\<^verbatim>\<open>_.get(object, ["content", "application/yang-data+json", "schema"], {})\<close>, of a
      request body object in \<^verbatim>\<open>validate\<close> and of a response object in
      \<^verbatim>\<open>validateResponse\<close>.\<close>
  "body_schema_of rt object = lodash_get rt object [''content'', media_type, ''schema''] (JObj [])"

definition required_list :: "runtime \<Rightarrow> jsval \<Rightarrow> jsval \<Rightarrow> jsval list" where
  \<comment> \<open>\<^verbatim>\<open>schema.required\<close> after the two conditional pushes.\<close>
  "required_list rt parametersSchema requestBodyObject =
     [JStr ''query'', JStr ''headers'', JStr ''params'']
     @ (if \<not> lodash_isEmpty (get_prop rt parametersSchema ''cookies'')
           \<and> 1 < length (Object_keys (get_prop rt parametersSchema ''cookies''))
        then [JStr ''cookies''] else [])
     @ (if lodash_get rt requestBodyObject [''required''] JUndefined = JBool True
        then [JStr ''body''] else [])"

definition request_schema :: "runtime \<Rightarrow> jsval \<Rightarrow> jsval \<Rightarrow> jsval \<Rightarrow> jsval" where
  "request_schema rt resolvedBodySchema parametersSchema requestBodyObject =
     JObj [(''type'', JStr ''object''),
           (''properties'', JObj (obj_spread [(''body'', resolvedBodySchema)] parametersSchema)),
           (''required'', JArr (required_list rt parametersSchema requestBodyObject))]"

definition register_for_request :: "string \<Rightarrow> ajv \<Rightarrow> ajv" where
  \<comment> \<open>The \<^verbatim>\<open>removeKeyword\<close> and \<^verbatim>\<open>addKeyword\<close> calls of \<^verbatim>\<open>validate\<close>.\<close>
  "register_for_request method a =
     a\<lparr>readOnly_kw :=
          (if method = ''post'' \<or> method = ''patch'' \<or> method = ''put''
           then ReadOnlyError else ReadOnlyAnnotation),
        x_key_kw := Some (if method = ''patch'' then XKeyAnnotation else XKeyUnique)\<rparr>"

definition register_for_response :: "ajv \<Rightarrow> ajv" where
  \<comment> \<open>The \<^verbatim>\<open>removeKeyword\<close> and \<^verbatim>\<open>addKeyword\<close> calls of \<^verbatim>\<open>validateResponse\<close>.\<close>
  "register_for_response a = a\<lparr>x_key_kw := Some XKeyUnique\<rparr>"

definition pick :: "runtime \<Rightarrow> jsval \<Rightarrow> string list \<Rightarrow> (string \<times> jsval) list" where
  \<comment> \<open>\<^verbatim>\<open>_.pick(object, keys)\<close> for plain keys: the listed properties that are in the
      object, own or inherited; nothing of \<^verbatim>\<open>null\<close> or \<^verbatim>\<open>undefined\<close>.\<close>
  "pick rt object keys =
     (if nullish object then []
      else map (\<lambda>k. (k, get_prop rt object k)) (filter (has_in rt object) keys))"

definition reqToValidate :: "runtime \<Rightarrow> jsval \<Rightarrow> js_error + jsval" where
  \<comment> \<open>Reading \<^verbatim>\<open>req.cookies\<close> throws when there is no request.\<close>
  "reqToValidate rt req =
     (if nullish req then Inl TypeError
      else Inr (JObj (pick rt req [''query'', ''headers'', ''params'', ''body'']
                      @ [(''cookies'',
                          if truthy (get_prop rt req ''cookies'')
                          then JObj (obj_spread (obj_spread [] (get_prop rt req ''cookies''))
                                                (get_prop rt req ''signedCookies''))
                          else JUndefined)])))"

definition validate ::
  "modules \<Rightarrow> runtime \<Rightarrow> OpenApiValidator \<Rightarrow> string \<Rightarrow> string
     \<Rightarrow> js_error + OpenApiValidator \<times> (jsval \<Rightarrow> bool)" where
  \<comment> \<open>The validator object after the call, and the request handler: true when the handler
      calls \<^verbatim>\<open>next()\<close> without an error. The schema is compiled inside the call, with
      the keywords the call has just registered. Reading \<^verbatim>\<open>parametersSchema.cookies\<close>
      throws when the builder has returned \<^verbatim>\<open>null\<close> or \<^verbatim>\<open>undefined\<close>.\<close>
  "validate m rt this method path =
     bind (getPathItemObject rt this path) (\<lambda>pathItemObject.
     bind (getOperationObject rt this method path) (\<lambda>operation.
     bind (resolveReference m (document this) (lodash_get rt operation [''requestBody''] (JObj [])))
       (\<lambda>requestBodyObject.
     bind (read_prop rt pathItemObject ''parameters'') (\<lambda>pathParameters.
     bind (read_prop rt operation ''parameters'') (\<lambda>operationParameters.
     bind (parameters_resolve m (document this) pathParameters operationParameters) (\<lambda>params.
     bind (parameters_buildSchema m params) (\<lambda>parametersSchema.
     bind (resolveReference m (document this) (body_schema_of rt requestBodyObject))
       (\<lambda>resolvedBodySchema.
     bind (read_prop rt parametersSchema ''cookies'') (\<lambda>cookies.
     bind (mapOasSchemaToJsonSchema m
             (request_schema rt resolvedBodySchema parametersSchema requestBodyObject)
             (document this) (disallowAdditionalPropertiesByDefault this)
             (method = ''put'' \<or> method = ''post'')) (\<lambda>jsonSchema.
       let a = register_for_request method (ajv_instance this)
       in Inr (this\<lparr>ajv_instance := a\<rparr>,
               \<lambda>req. case reqToValidate rt req of
                       Inl e \<Rightarrow> False
                     | Inr r \<Rightarrow> accepts rt a jsonSchema r)))))))))))"

definition response_handler ::
  "modules \<Rightarrow> runtime \<Rightarrow> jsval \<Rightarrow> OpenApiValidator \<Rightarrow> jsval \<Rightarrow> js_error + bool" where
  \<comment> \<open>The handler \<^verbatim>\<open>validateResponse\<close> returns, for an operation. It compiles its schema
      when it runs: \<open>this\<close> is the validator object as it is at that time. True when the
      handler calls \<^verbatim>\<open>next()\<close> without an error.\<close>
  "response_handler m rt operation this res =
     bind (resolveResponse rt res) (\<lambda>(statusCode, body, headers).
     bind (getResponseObject m rt this operation statusCode) (\<lambda>responseObject.
     bind (resolveReference m (document this) (body_schema_of rt responseObject)) (\<lambda>resolvedBodySchema.
     bind (mapOasSchemaToJsonSchema m
             (JObj [(''type'', JStr ''object''),
                    (''properties'',
                       JObj [(''body'', resolvedBodySchema),
                             (''headers'', JObj [(''type'', JStr ''object''), (''properties'', JObj [])])]),
                    (''required'', JArr [JStr ''headers'', JStr ''body''])])
             (document this) (disallowAdditionalPropertiesByDefault this) True) (\<lambda>schema.
       Inr (accepts rt (ajv_instance this) schema
              (JObj [(''body'', body), (''headers'', headers)]))))))"

definition validateResponse ::
  "modules \<Rightarrow> runtime \<Rightarrow> OpenApiValidator \<Rightarrow> string \<Rightarrow> string
     \<Rightarrow> js_error + OpenApiValidator \<times> (OpenApiValidator \<Rightarrow> jsval \<Rightarrow> js_error + bool)" where
  "validateResponse m rt this method path =
     bind (getOperationObject rt this method path) (\<lambda>operation.
       Inr (this\<lparr>ajv_instance := register_for_response (ajv_instance this)\<rparr>,
            response_handler m rt operation))"

section \<open>The words of the specification\<close>

fun leading_digit :: "nat \<Rightarrow> nat" where
  "leading_digit n = (if n < 10 then n else leading_digit (n div 10))"

declare leading_digit.simps [simp del]

definition status_class :: "nat \<Rightarrow> string" where
  \<comment> \<open>The status-class token: the first digit of the code, followed by \<^verbatim>\<open>XX\<close>.\<close>
  "status_class n = [digit_char (leading_digit n)] @ ''XX''"

definition response_entry :: "runtime \<Rightarrow> jsval \<Rightarrow> string \<Rightarrow> jsval option" where
  \<comment> \<open>The operation's response entry for a key, \<^verbatim>\<open>op.responses[key]\<close>, when there is
      one: a value other than \<^verbatim>\<open>null\<close> and \<^verbatim>\<open>undefined\<close>.\<close>
  "response_entry rt op key =
     (if nullish (base_get rt op [''responses'', key]) then None
      else Some (base_get rt op [''responses'', key]))"

definition version_3_0_x :: "jsval \<Rightarrow> bool" where
  \<comment> \<open>A version of the \<^verbatim>\<open>3.0.x\<close> range.\<close>
  "version_3_0_x v =
     (case v of
        JStr s \<Rightarrow>
          (case SemVer s of
             Some sv \<Rightarrow> major sv = 3 \<and> minor sv = 0 \<and> prerelease sv = []
           | None \<Rightarrow> False)
      | _ \<Rightarrow> False)"

definition version_3_x :: "jsval \<Rightarrow> bool" where
  \<comment> \<open>A release of major version 3: \<^verbatim>\<open>3.y.z\<close> with no pre-release tag.\<close>
  "version_3_x v =
     (case v of
        JStr s \<Rightarrow>
          (case SemVer s of
             Some sv \<Rightarrow> major sv = 3 \<and> prerelease sv = []
           | None \<Rightarrow> False)
      | _ \<Rightarrow> False)"

definition is_number :: "jsval \<Rightarrow> bool" where
  "is_number v = (case v of JNum _ \<Rightarrow> True | _ \<Rightarrow> False)"

definition numeric_range :: "runtime \<Rightarrow> jsval \<Rightarrow> bool" where
  \<comment> \<open>A \<^verbatim>\<open>{min, max}\<close> pair of numbers.\<close>
  "numeric_range rt rng =
     (\<not> nullish rng \<and> is_number (get_prop rt rng ''min'') \<and> is_number (get_prop rt rng ''max''))"

definition is_object :: "jsval \<Rightarrow> bool" where
  "is_object v = (case v of JObj _ \<Rightarrow> True | _ \<Rightarrow> False)"

definition composite_id :: "runtime \<Rightarrow> string list \<Rightarrow> jsval \<Rightarrow> string" where
  \<comment> \<open>The composite identifier of an element: "concatenating, in the declared field
      order, the element's value for each named field, joined by commas".\<close>
  "composite_id rt keys item =
     join_comma (map (\<lambda>key. text_of (to_string rt (get_prop rt item key))) keys)"

definition x_key_as_specified :: "runtime \<Rightarrow> string list \<Rightarrow> jsval list \<Rightarrow> bool" where
  \<comment> \<open>The array passes: no element misses a named field, and no element's composite
      identifier is that of an earlier element.\<close>
  "x_key_as_specified rt keys items =
     (\<not> list_ex (\<lambda>j. list_ex (key_missing rt (items ! j)) keys
                     \<or> list_ex (\<lambda>i. composite_id rt keys (items ! i) = composite_id rt keys (items ! j))
                          [0..<j])
          [0..<length items])"

definition yang_entry_schema :: "runtime \<Rightarrow> (string \<times> jsval) list \<Rightarrow> jsval" where
  \<comment> \<open>What is read from a content map: the schema of its entry for the media type
      \<^verbatim>\<open>application/yang-data+json\<close>; the empty schema when the map has no such entry,
      or the entry holds no schema.\<close>
  "yang_entry_schema rt content =
     (if nullish (assoc content ''application/yang-data+json'')
         \<or> get_prop rt (assoc content ''application/yang-data+json'') ''schema'' = JUndefined
      then JObj []
      else get_prop rt (assoc content ''application/yang-data+json'') ''schema'')"

definition number_of :: "js_error + jsnum \<Rightarrow> jsnum" where
  \<comment> \<open>The number a conversion gives, NaN when it throws.\<close>
  "number_of r = (case r of Inr n \<Rightarrow> n | Inl e \<Rightarrow> NaN)"

definition determinable :: "runtime \<Rightarrow> jsval \<Rightarrow> bool" where
  \<comment> \<open>The three parts of a response-like value can be determined: one of
      \<^verbatim>\<open>statusCode\<close>, \<^verbatim>\<open>status\<close> converts to a number, one of \<^verbatim>\<open>body\<close>,
      \<^verbatim>\<open>data\<close> holds a value, and \<^verbatim>\<open>headers\<close> holds one.\<close>
  "determinable rt res =
     (\<not> nullish res
      \<and> (number_of (to_number rt (get_prop rt res ''statusCode'')) \<noteq> NaN
          \<or> number_of (to_number rt (get_prop rt res ''status'')) \<noteq> NaN)
      \<and> (\<not> nullish (get_prop rt res ''body'') \<or> \<not> nullish (get_prop rt res ''data''))
      \<and> \<not> nullish (get_prop rt res ''headers''))"

subsection \<open>The modules that are not among the sources\<close>

definition array_items :: "jsval \<Rightarrow> jsval list" where
  "array_items v = (case v of JArr xs \<Rightarrow> xs | _ \<Rightarrow> [])"

definition string_value :: "jsval \<Rightarrow> string" where
  "string_value v = (case v of JStr s \<Rightarrow> s | _ \<Rightarrow> [])"

definition param_field :: "jsval \<Rightarrow> string \<Rightarrow> jsval" where
  \<comment> \<open>A field of a parameter object.\<close>
  "param_field p k = (case own_value p k of Some v \<Rightarrow> v | None \<Rightarrow> JUndefined)"

definition same_parameter :: "jsval \<Rightarrow> jsval \<Rightarrow> bool" where
  "same_parameter p q =
     (param_field p ''name'' = param_field q ''name'' \<and> param_field p ''in'' = param_field q ''in'')"

definition resolve_spec :: "jsval \<Rightarrow> jsval \<Rightarrow> jsval \<Rightarrow> jsval" where
  \<comment> \<open>Modelled from the spec: \<^verbatim>\<open>parameters.resolve\<close> of \<^verbatim>\<open>./parameters\<close>, which is not
      among the sources. "Path-item-level and operation-level parameter lists are merged with
      operation-level taking precedence on name+location collision."\<close>
  "resolve_spec doc pathParameters operationParameters =
     JArr (array_items operationParameters
           @ filter (\<lambda>p. \<not> list_ex (same_parameter p) (array_items operationParameters))
               (array_items pathParameters))"

definition location_parameters :: "string \<Rightarrow> jsval \<Rightarrow> jsval list" where
  \<comment> \<open>The parameters declared for a location (\<^verbatim>\<open>query\<close>, \<^verbatim>\<open>header\<close>, \<^verbatim>\<open>path\<close>,
      \<^verbatim>\<open>cookie\<close>).\<close>
  "location_parameters loc params = filter (\<lambda>p. param_field p ''in'' = JStr loc) (array_items params)"

definition fragment_spec :: "string \<Rightarrow> jsval \<Rightarrow> jsval" where
  \<comment> \<open>Modelled from the spec: the schema fragment of one location, "an object schema whose
      properties are the parameter names and whose \<^verbatim>\<open>required\<close> list contains parameters
      marked required".\<close>
  "fragment_spec loc params =
     JObj [(''type'', JStr ''object''),
           (''properties'',
              JObj (map (\<lambda>p. (string_value (param_field p ''name''), param_field p ''schema''))
                     (location_parameters loc params))),
           (''required'',
              JArr (map (\<lambda>p. param_field p ''name'')
                     (filter (\<lambda>p. param_field p ''required'' = JBool True)
                        (location_parameters loc params))))]"

definition buildSchema_spec :: "jsval \<Rightarrow> jsval" where
  \<comment> \<open>Modelled from the spec: \<^verbatim>\<open>parameters.buildSchema\<close> of \<^verbatim>\<open>./parameters\<close>, which is
      not among the sources. "Given a merged parameter list, produces four independent schema
      fragments keyed by location: query, headers, path-params, cookies."\<close>
  "buildSchema_spec params =
     JObj [(''query'', fragment_spec ''query'' params),
           (''headers'', fragment_spec ''header'' params),
           (''params'', fragment_spec ''path'' params),
           (''cookies'', fragment_spec ''cookie'' params)]"

definition spec_modules :: modules where
  \<comment> \<open>Modelled from the spec: the four imported functions, for a document without
      references and with \<^verbatim>\<open>disallowAdditionalPropertiesByDefault\<close> off. The reference
      resolver returns a node that holds no pointer unchanged; the schema mapper rewrites
      nothing in a schema that holds no reference, no \<^verbatim>\<open>nullable\<close>, no \<^verbatim>\<open>enum\<close> and no
      discriminator, and passes the vendor keywords through. The set-up of Ajv throws
      nothing, as for a caller that passes no Ajv options.\<close>
  "spec_modules =
     \<lparr>resolveReference = (\<lambda>doc node. Inr node),
      mapOasSchemaToJsonSchema = (\<lambda>schema doc disallow write. Inr schema),
      parameters_resolve = (\<lambda>doc pathParameters operationParameters.
                              Inr (resolve_spec doc pathParameters operationParameters)),
      parameters_buildSchema = (\<lambda>params. Inr (buildSchema_spec params)),
      Ajv_setup = (\<lambda>userOptions. None)\<rparr>"

subsection \<open>Values for the examples\<close>

definition some_runtime :: runtime where
  \<comment> \<open>A runtime to evaluate closed examples with. No example below reaches its fields.\<close>
  "some_runtime =
     \<lparr>other_Number = (\<lambda>s. NaN), other_BigInt = (\<lambda>s. None), other_toString = (\<lambda>q. []),
      builtin_get = (\<lambda>n k. None), builtin_own = (\<lambda>n k. False), function_source = (\<lambda>n. []),
      prototype_primitive = (\<lambda>n h. JUndefined), call_builtin = (\<lambda>f this. None)\<rparr>"

definition example_validator :: "jsval \<Rightarrow> OpenApiValidator" where
  \<comment> \<open>The validator object the constructor returns for a document, with no options.\<close>
  "example_validator doc =
     \<lparr>ajv_instance = \<lparr>readOnly_kw = ReadOnlyAnnotation, x_key_kw = None, allErrors = False\<rparr>,
      document = doc,
      disallowAdditionalPropertiesByDefault = False\<rparr>"

definition example_operation :: jsval where
  \<comment> \<open>An operation with responses declared for \<^verbatim>\<open>404\<close>, \<^verbatim>\<open>4XX\<close> and \<^verbatim>\<open>default\<close>.\<close>
  "example_operation =
     JObj [(''responses'',
            JObj [(''404'', JObj [(''description'', JStr ''exact'')]),
                  (''4XX'', JObj [(''description'', JStr ''class'')]),
                  (''default'', JObj [(''description'', JStr ''default'')])])]"

definition uint64_schema :: jsval where
  \<comment> \<open>A string-typed schema node for a 64-bit unsigned value restricted to \<open>0 .. 2^53\<close>.\<close>
  "uint64_schema =
     JObj [(''type'', JStr ''string''),
           (''x-type'', JStr ''uint64''),
           (''x-range'', JArr [JObj [(''min'', JNum (Fin 0)), (''max'', JNum (Fin 9007199254740992))]])]"

definition two_ranges :: "jsval list" where
  \<comment> \<open>\<^verbatim>\<open>[{min:1,max:5},{min:10,max:20}]\<close>\<close>
  "two_ranges =
     [JObj [(''min'', JNum (Fin 1)), (''max'', JNum (Fin 5))],
      JObj [(''min'', JNum (Fin 10)), (''max'', JNum (Fin 20))]]"

definition item_schema :: jsval where
  \<comment> \<open>An object whose \<^verbatim>\<open>id\<close> is read-only.\<close>
  "item_schema =
     JObj [(''type'', JStr ''object''),
           (''properties'',
              JObj [(''id'', JObj [(''type'', JStr ''string''), (''readOnly'', JBool True)]),
                    (''name'', JObj [(''type'', JStr ''string'')])])]"

definition list_schema :: jsval where
  \<comment> \<open>An array of objects keyed by \<^verbatim>\<open>id\<close>.\<close>
  "list_schema =
     JObj [(''type'', JStr ''array''),
           (''x-key'', JStr ''id''),
           (''items'', JObj [(''type'', JStr ''object'')])]"

definition content_of :: "jsval \<Rightarrow> jsval" where
  "content_of schema = JObj [(''application/yang-data+json'', JObj [(''schema'', schema)])]"

definition get_item_operation :: jsval where
  "get_item_operation =
     JObj [(''responses'', JObj [(''200'', JObj [(''content'', content_of item_schema)])])]"

definition get_list_operation :: jsval where
  "get_list_operation =
     JObj [(''responses'', JObj [(''200'', JObj [(''content'', content_of list_schema)])])]"

definition write_operation :: "jsval \<Rightarrow> jsval" where
  "write_operation schema =
     JObj [(''requestBody'', JObj [(''required'', JBool True), (''content'', content_of schema)]),
           (''responses'', JObj [(''200'', JObj [(''content'', content_of schema)])])]"

definition example_document :: jsval where
  \<comment> \<open>\<^verbatim>\<open>GET /item\<close> and \<^verbatim>\<open>POST /item\<close> on the item, \<^verbatim>\<open>GET /list\<close> and
      \<^verbatim>\<open>PATCH /list\<close> on the list.\<close>
  "example_document =
     JObj [(''openapi'', JStr ''3.0.3''),
           (''paths'',
              JObj [(''/item'', JObj [(''get'', get_item_operation),
                                      (''post'', write_operation item_schema)]),
                    (''/list'', JObj [(''get'', get_list_operation),
                                      (''patch'', write_operation list_schema)])])]"

definition item_response :: jsval where
  \<comment> \<open>A response to \<^verbatim>\<open>GET /item\<close> that carries the read-only field.\<close>
  "item_response =
     JObj [(''statusCode'', JNum (Fin 200)),
           (''body'', JObj [(''id'', JStr ''7''), (''name'', JStr ''n'')]),
           (''headers'', JObj [])]"

definition list_response :: jsval where
  \<comment> \<open>A response to \<^verbatim>\<open>GET /list\<close> with a duplicate key.\<close>
  "list_response =
     JObj [(''statusCode'', JNum (Fin 200)),
           (''body'', JArr [JObj [(''id'', JStr ''a'')], JObj [(''id'', JStr ''a'')]]),
           (''headers'', JObj [])]"

definition media_operation :: "string \<Rightarrow> jsval" where
  \<comment> \<open>An operation whose request body and whose response \<^verbatim>\<open>200\<close> are declared under
      one media type, as a string.\<close>
  "media_operation mt =
     JObj [(''requestBody'',
              JObj [(''required'', JBool True),
                    (''content'', JObj [(mt, JObj [(''schema'', JObj [(''type'', JStr ''string'')])])])]),
           (''responses'',
              JObj [(''200'',
                     JObj [(''content'', JObj [(mt, JObj [(''schema'', JObj [(''type'', JStr ''string'')])])])])])]"

definition media_document :: jsval where
  \<comment> \<open>\<^verbatim>\<open>POST /json\<close> declares its bodies under \<^verbatim>\<open>application/json\<close>,
      \<^verbatim>\<open>POST /yang\<close> under \<^verbatim>\<open>application/yang-data+json\<close>.\<close>
  "media_document =
     JObj [(''openapi'', JStr ''3.0.3''),
           (''paths'',
              JObj [(''/json'', JObj [(''post'', media_operation ''application/json'')]),
                    (''/yang'', JObj [(''post'', media_operation ''application/yang-data+json'')])])]"

definition number_request :: jsval where
  \<comment> \<open>A request whose body is the number 5.\<close>
  "number_request =
     JObj [(''query'', JObj []), (''headers'', JObj []), (''params'', JObj []),
           (''body'', JNum (Fin 5)), (''cookies'', JObj [])]"

definition number_response :: jsval where
  \<comment> \<open>A response whose body is the number 5.\<close>
  "number_response =
     JObj [(''statusCode'', JNum (Fin 200)), (''body'', JNum (Fin 5)), (''headers'', JObj [])]"

definition validator_after :: "js_error + OpenApiValidator \<times> 'h \<Rightarrow> js_error + OpenApiValidator" where
  \<comment> \<open>The validator object a call of \<^verbatim>\<open>validate\<close> or \<^verbatim>\<open>validateResponse\<close> leaves.\<close>
  "validator_after r = (case r of Inl e \<Rightarrow> Inl e | Inr (this, handler) \<Rightarrow> Inr this)"

definition verdict :: "js_error + OpenApiValidator \<times> (jsval \<Rightarrow> bool) \<Rightarrow> jsval \<Rightarrow> bool option" where
  \<comment> \<open>What the request handler returned by a call of \<^verbatim>\<open>validate\<close> decides on a
      request; \<open>None\<close> when the call has thrown.\<close>
  "verdict r req = (case r of Inl e \<Rightarrow> None | Inr (this, handler) \<Rightarrow> Some (handler req))"

definition handler_of :: "js_error + OpenApiValidator \<times> 'h \<Rightarrow> 'h option" where
  \<comment> \<open>The handler such a call returns.\<close>
  "handler_of r = (case r of Inl e \<Rightarrow> None | Inr (this, handler) \<Rightarrow> Some handler)"

section \<open>Evaluation and auxiliary facts\<close>

lemmas semver_eval =
  SemVer_def trim_def is_space_def cut_at_def numeric_identifier_def all_digits_def is_digit_def
  nat_of_digits_def digit_val_def MAX_SAFE_INTEGER_def Let_def

lemma comparePreList_zero: "ps \<noteq> [] \<Longrightarrow> 0 \<le> comparePreList ps [NumId 0]"
proof (cases ps)
  case Nil
  assume "ps \<noteq> []"
  with Nil show ?thesis by simp
next
  case (Cons x xs)
  have "0 \<le> comparePreList xs []" by (cases xs) simp_all
  moreover have "0 \<le> compareIdentifiers x (NumId 0)"
    by (auto simp: compareIdentifiers_def id_number_def split: option.splits pre_id.splits)
  ultimately show ?thesis using Cons by simp
qed

lemma testSet_caret_3_0_0: "testSet caret_3_0_0 v = (major v = 3 \<and> prerelease v = [])"
proof (cases "prerelease v = []")
  case True
  then show ?thesis
    by (auto simp: testSet_def caret_3_0_0_def compare_def compareMain_def comparePre_def
        split: if_splits)
next
  case False
  have "\<not> testSet caret_3_0_0 v"
  proof
    assume t: "testSet caret_3_0_0 v"
    with False have m: "major v = 4" "minor v = 0" "patch v = 0"
      by (auto simp: testSet_def caret_3_0_0_def)
    from t have "compare v \<lparr>major = 4, minor = 0, patch = 0, prerelease = [NumId 0]\<rparr> < 0"
      by (simp add: testSet_def caret_3_0_0_def)
    with m False have "comparePreList (prerelease v) [NumId 0] < 0"
      by (simp add: compare_def compareMain_def comparePre_def)
    with comparePreList_zero [of "prerelease v"] False show False by simp
  qed
  with False show ?thesis by simp
qed

lemma SemVer_empty: "SemVer [] = None"
  by (simp add: semver_eval)

lemma satisfies_caret_3_0_0:
  "is_string v \<or> v = JUndefined \<Longrightarrow> satisfies v caret_3_0_0 = Inr (version_3_x v)"
  by (cases v)
    (auto simp: satisfies_def version_3_x_def is_string_def truthy_def testSet_caret_3_0_0
      SemVer_empty split: option.splits)

lemma string_of_nat_nonempty: "string_of_nat n \<noteq> []"
  by (subst string_of_nat.simps) simp

lemma hd_string_of_nat: "hd (string_of_nat n) = digit_char (leading_digit n)"
proof (induction n rule: string_of_nat.induct)
  case (1 n)
  show ?case
  proof (cases "n < 10")
    case True
    then show ?thesis
      by (subst string_of_nat.simps, subst leading_digit.simps) simp
  next
    case False
    then show ?thesis
      using 1 string_of_nat_nonempty [of "n div 10"]
      by (subst string_of_nat.simps, subst leading_digit.simps) simp
  qed
qed

lemma is_integral_of_nat: "is_integral (of_nat n)"
  by (simp add: is_integral_def)

lemma Number_toString_nat:
  "n < 2 ^ 53 \<Longrightarrow> Number_toString rt (Fin (of_nat n)) = string_of_nat n"
proof -
  assume "n < 2 ^ 53"
  then have "(of_nat n :: rat) < of_nat (2 ^ 53)"
    by (simp only: of_nat_less_iff)
  then show ?thesis
    by (simp add: Number_toString_def is_integral_of_nat)
qed

lemma char_of_48: "char_of (48::nat) = CHR ''0''"
  by code_simp

lemma array_index_key_0: "array_index_key ''0'' = Some 0"
  by (simp add: array_index_key_def all_digits_def is_digit_def nat_of_digits_def digit_val_def
      string_of_nat.simps digit_char_def char_of_48)

lemma assoc_absent: "k \<notin> fst ` set ps \<Longrightarrow> assoc ps k = JUndefined"
  by (induction ps) auto

lemma get_prop_object:
  "get_prop rt (JObj ps) k =
     (if k \<in> fst ` set ps then assoc ps k
      else case Object_prototype_get k of Some x \<Rightarrow> x | None \<Rightarrow> JUndefined)"
  by (simp add: get_prop_def own_value_def inherited_def)

lemma get_prop_plain:
  "Object_prototype_get k = None \<Longrightarrow> get_prop rt (JObj ps) k = assoc ps k"
  by (simp add: get_prop_object assoc_absent)

lemmas get_prop_eval = get_prop_plain Object_prototype_get_def Object_prototype_methods_def

lemma has_own_object: "has_own rt (JObj ps) k = (k \<in> fst ` set ps)"
  by (simp add: has_own_def own_value_def)

lemma first_char: "s \<noteq> [] \<Longrightarrow> prim_to_string rt (get_prop rt (JStr s) ''0'') = [hd s]"
  by (cases s) (simp_all add: get_prop_def own_value_def array_index_key_0 prim_to_string_def)

lemma class_field:
  "prim_to_string rt (get_prop rt (JStr (string_of_nat n)) ''0'') @ ''XX'' = status_class n"
  by (simp add: first_char string_of_nat_nonempty hd_string_of_nat status_class_def)

lemma lodash_get_responses:
  "lodash_get rt op [''responses'', key] JNull =
     (case response_entry rt op key of None \<Rightarrow> JNull | Some r \<Rightarrow> r)"
  by (auto simp: lodash_get_def response_entry_def nullish_def Let_def)

lemma keys_nonempty: "1 < length (Object_keys v) \<Longrightarrow> \<not> lodash_isEmpty v"
  by (cases v) (auto simp: Object_keys_def lodash_isEmpty_def)

lemma accepts_empty_schema: "accepts rt a (JObj []) data"
  by (simp add: type_keyword_def required_keyword_def readOnly_keyword_def x_key_keyword_def)

lemma big_digits: "nat_of_digits ''9007199254740993'' = 9007199254740993"
  by (simp add: nat_of_digits_def digit_val_def)

lemma big_rounds: "round_double 9007199254740993 = 9007199254740992"
  by (simp add: round_double_def excess_bits.simps Let_def)

lemma big_all_digits: "all_digits ''9007199254740993''"
  by (simp add: all_digits_def is_digit_def)

lemma Number_big: "Number_of_string rt ''9007199254740993'' = Fin 9007199254740992"
  by (simp add: Number_of_string_def big_all_digits big_digits big_rounds)

lemma BigInt_big: "BigInt_of_string rt ''9007199254740993'' = Some 9007199254740993"
  by (simp add: BigInt_of_string_def big_all_digits big_digits)

lemma try_methods_error: "try_methods rt obj names = Inl e \<Longrightarrow> e = TypeError"
  by (induction names) (auto split: jsval.splits option.splits if_splits)

lemma sequence_error: "sequence rs = Inl e \<Longrightarrow> Inl e \<in> set rs"
  by (induction rs) (auto split: sum.splits)

lemma to_primitive_error: "to_primitive rt h v = Inl e \<Longrightarrow> e = TypeError"
proof (induction rt h v rule: to_primitive.induct)
  case (1 rt h ps)
  then show ?case by (simp add: try_methods_error)
next
  case arr: (2 rt h xs)
  from arr.prems obtain x where x: "x \<in> set xs"
    and "(if x = JNull \<or> x = JUndefined then Inr []
          else case to_primitive rt HintString x of
                 Inl e \<Rightarrow> Inl e
               | Inr p \<Rightarrow> Inr (prim_to_string rt p)) = Inl e"
    by (auto split: sum.splits dest!: sequence_error)
  then have "x \<noteq> JNull" "x \<noteq> JUndefined" "to_primitive rt HintString x = Inl e"
    by (auto split: if_splits sum.splits)
  with arr.IH [OF x] show ?case by simp
qed simp_all

lemma to_number_error: "to_number rt v = Inl e \<Longrightarrow> e = TypeError"
  by (auto simp: to_number_def bind_def split: sum.splits dest: to_primitive_error)

lemma bind_simps: "bind (Inr x) f = f x" "bind (Inl e) f = Inl e"
  by (simp_all add: bind_def)

subsection \<open>The loops of \<^verbatim>\<open>x-key\<close>\<close>

lemma join_comma_Cons:
  "join_comma (s # ss) = s @ concat (map (\<lambda>t. '','' @ t) ss)"
  by (induction ss arbitrary: s) auto

lemma converts_string: "converts rt (JStr s)"
  by (simp add: converts_def plus_string_def bind_def)

lemma plus_string_string: "plus_string rt (JStr s) = Inr s"
  by (simp add: plus_string_def bind_def prim_to_string_def)

lemma converts_text: "converts rt v \<Longrightarrow> plus_string rt v = Inr (text_of (plus_string rt v))"
  by (cases "plus_string rt v") (simp_all add: converts_def text_of_def)

lemma x_key_keys_later:
  assumes "0 < i" and "converts rt ident"
    and "list_all (\<lambda>key. converts rt (get_prop rt item key)) keys"
  shows "\<exists>v. x_key_keys rt item i keys ident = Inr (v, find (key_missing rt item) keys)
    \<and> (\<not> list_ex (key_missing rt item) keys \<longrightarrow>
         v = (if keys = [] then ident
              else JStr (text_of (plus_string rt ident)
                         @ concat (map (\<lambda>k. '','' @ text_of (plus_string rt (get_prop rt item k))) keys))))"
  using assms
proof (induction keys arbitrary: i ident)
  case Nil
  then show ?case by simp
next
  case (Cons key keys)
  show ?case
  proof (cases "key_missing rt item key")
    case True
    then show ?thesis
      by (simp add: key_missing_def)
  next
    case False
    from Cons.prems have c: "converts rt (get_prop rt item key)"
      and r: "list_all (\<lambda>key. converts rt (get_prop rt item key)) keys"
      by simp_all
    let ?next = "JStr (text_of (plus_string rt ident) @ '','' @ text_of (plus_string rt (get_prop rt item key)))"
    obtain s where s: "plus_string rt ident = Inr s"
      using converts_text [OF Cons.prems(2)] by blast
    obtain t where t: "plus_string rt (get_prop rt item key) = Inr t"
      using converts_text [OF c] by blast
    have step: "x_key_keys rt item i (key # keys) ident = x_key_keys rt item (Suc i) keys ?next"
      using False Cons.prems(1)
      by (simp add: key_missing_def bind_def s t text_of_def)
    from Cons.IH [of "Suc i" ?next, OF _ converts_string r]
    obtain v where v: "x_key_keys rt item (Suc i) keys ?next = Inr (v, find (key_missing rt item) keys)"
      and w: "\<not> list_ex (key_missing rt item) keys \<longrightarrow>
         v = (if keys = [] then ?next
              else JStr (text_of (plus_string rt ?next)
                         @ concat (map (\<lambda>k. '','' @ text_of (plus_string rt (get_prop rt item k))) keys)))"
      by auto
    from step v w False show ?thesis
      by (auto simp: plus_string_string text_of_def)
  qed
qed

lemma x_key_keys_snd:
  assumes "convertible rt keys item"
  shows "\<exists>v. x_key_keys rt item 0 keys (JStr []) = Inr (v, find (key_missing rt item) keys)"
proof (cases keys)
  case Nil
  then show ?thesis by simp
next
  case (Cons key rest)
  show ?thesis
  proof (cases "key_missing rt item key")
    case True
    with Cons show ?thesis by (simp add: key_missing_def)
  next
    case False
    show ?thesis
    proof (cases rest)
      case Nil
      with Cons False show ?thesis by (simp add: key_missing_def)
    next
      case (Cons key2 rest2)
      with \<open>keys = key # rest\<close> assms
      have c: "converts rt (get_prop rt item key)"
        and r: "list_all (\<lambda>key. converts rt (get_prop rt item key)) rest"
        by (simp_all add: convertible_def)
      from x_key_keys_later [of "Suc 0" rt "get_prop rt item key" item rest, OF _ c r]
      obtain v where "x_key_keys rt item (Suc 0) rest (get_prop rt item key)
          = Inr (v, find (key_missing rt item) rest)"
        by auto
      with \<open>keys = key # rest\<close> False show ?thesis
        by (simp add: key_missing_def)
    qed
  qed
qed

lemma x_key_keys_complete:
  assumes "\<not> list_ex (key_missing rt item) keys" and "convertible rt keys item"
  shows "x_key_keys rt item 0 keys (JStr []) = Inr (item_id rt keys item, None)"
proof (cases keys)
  case Nil
  then show ?thesis by (simp add: item_id_def)
next
  case (Cons key rest)
  with assms have r: "\<not> list_ex (key_missing rt item) rest" and k: "\<not> key_missing rt item key"
    by simp_all
  show ?thesis
  proof (cases rest)
    case Nil
    with Cons k show ?thesis
      by (simp add: item_id_def key_missing_def)
  next
    case (Cons key2 rest2)
    with \<open>keys = key # rest\<close> assms
    have c: "converts rt (get_prop rt item key)"
      and cr: "list_all (\<lambda>key. converts rt (get_prop rt item key)) rest"
      by (simp_all add: convertible_def)
    from x_key_keys_later [of "Suc 0" rt "get_prop rt item key" item rest, OF _ c cr] r
    have "x_key_keys rt item (Suc 0) rest (get_prop rt item key) =
        Inr (JStr (text_of (plus_string rt (get_prop rt item key))
                   @ concat (map (\<lambda>k. '','' @ text_of (plus_string rt (get_prop rt item k))) rest)), None)"
      using Cons by (auto simp: find_None_iff list_ex_iff)
    with \<open>keys = key # rest\<close> Cons k show ?thesis
      by (simp add: item_id_def key_missing_def join_comma_Cons comp_def)
  qed
qed

lemma x_key_keys_missing:
  assumes "list_ex (key_missing rt item) keys" and "convertible rt keys item"
  shows "\<exists>ident key. x_key_keys rt item 0 keys (JStr []) = Inr (ident, Some key)
      \<and> find (key_missing rt item) keys = Some key"
proof -
  from assms(1) have "find (key_missing rt item) keys \<noteq> None"
    by (auto simp: find_None_iff list_ex_iff)
  then obtain key where "find (key_missing rt item) keys = Some key"
    by blast
  with x_key_keys_snd [OF assms(2)] show ?thesis
    by auto
qed

lemma x_key_items_no_throw:
  "list_all (\<lambda>item. \<not> nullish item) items \<Longrightarrow> list_all (convertible rt keys) items \<Longrightarrow>
   \<exists>es. x_key_items rt ap keys items idSet = Inr es"
proof (induction items arbitrary: idSet)
  case Nil
  then show ?case by simp
next
  case (Cons item items)
  then have ih: "\<And>idSet. \<exists>es. x_key_items rt ap keys items idSet = Inr es"
    by simp
  from Cons.prems have c: "convertible rt keys item"
    by simp
  obtain ident k where kk: "x_key_keys rt item 0 keys (JStr []) = Inr (ident, k)"
    using x_key_keys_snd [OF c] by blast
  obtain es where "x_key_items rt ap keys items (idSet @ [ident]) = Inr es"
    using ih by blast
  with Cons.prems kk show ?case
    by (cases k) auto
qed

lemma x_key_items_pass_iff:
  assumes "list_all (\<lambda>item. \<not> nullish item) items" and "list_all (convertible rt keys) items"
  shows "x_key_items rt ap keys items idSet = Inr [] \<longleftrightarrow>
    (\<forall>j<length items. \<not> list_ex (key_missing rt (items ! j)) keys
        \<and> \<not> set_has (idSet @ map (item_id rt keys) (take j items))
              (item_id rt keys (items ! j)))"
  using assms
proof (induction items arbitrary: idSet)
  case Nil
  then show ?case by simp
next
  case (Cons item items)
  then have nn: "\<not> nullish item" and rest: "list_all (\<lambda>item. \<not> nullish item) items"
    and c: "convertible rt keys item" and crest: "list_all (convertible rt keys) items"
    by simp_all
  show ?case
  proof (cases "list_ex (key_missing rt item) keys")
    case True
    then obtain ident key where kk: "x_key_keys rt item 0 keys (JStr []) = Inr (ident, Some key)"
      using x_key_keys_missing [OF _ c] by blast
    obtain es where "x_key_items rt ap keys items (idSet @ [ident]) = Inr es"
      using x_key_items_no_throw [OF rest crest] by blast
    with nn kk have "x_key_items rt ap keys (item # items) idSet \<noteq> Inr []"
      by auto
    moreover from True have "\<not> (\<forall>j<length (item # items).
        \<not> list_ex (key_missing rt ((item # items) ! j)) keys
        \<and> \<not> set_has (idSet @ map (item_id rt keys) (take j (item # items)))
              (item_id rt keys ((item # items) ! j)))"
      by (auto intro: exI [of _ 0])
    ultimately show ?thesis by blast
  next
    case False
    then have kk: "x_key_keys rt item 0 keys (JStr []) = Inr (item_id rt keys item, None)"
      using c by (rule x_key_keys_complete)
    show ?thesis
    proof (cases "set_has idSet (item_id rt keys item)")
      case True
      with nn kk have "x_key_items rt ap keys (item # items) idSet \<noteq> Inr []"
        by simp
      moreover from True have "\<not> (\<forall>j<length (item # items).
          \<not> list_ex (key_missing rt ((item # items) ! j)) keys
          \<and> \<not> set_has (idSet @ map (item_id rt keys) (take j (item # items)))
                (item_id rt keys ((item # items) ! j)))"
        by (auto intro: exI [of _ 0])
      ultimately show ?thesis by blast
    next
      case nh: False
      with nn kk have "x_key_items rt ap keys (item # items) idSet =
          x_key_items rt ap keys items (idSet @ [item_id rt keys item])"
        by simp
      with Cons.IH [OF rest crest, of "idSet @ [item_id rt keys item]"] False nh
      show ?thesis
        by (simp add: All_less_Suc2)
    qed
  qed
qed

lemma x_key_items_first:
  assumes "list_all (\<lambda>item. \<not> nullish item) items" and "list_all (convertible rt keys) items"
    and "j < length items"
    and "list_ex (key_missing rt (items ! j)) keys
         \<or> set_has (idSet @ map (item_id rt keys) (take j items)) (item_id rt keys (items ! j))"
    and "\<forall>i<j. \<not> list_ex (key_missing rt (items ! i)) keys
         \<and> \<not> set_has (idSet @ map (item_id rt keys) (take i items)) (item_id rt keys (items ! i))"
  shows "\<exists>more. x_key_items rt ap keys items idSet = Inr (x_key_report rt keys (items ! j) # more)
           \<and> (ap \<or> more = [])"
  using assms
proof (induction items arbitrary: idSet j)
  case Nil
  then show ?case by simp
next
  case (Cons item items)
  then have nn: "\<not> nullish item" and rest: "list_all (\<lambda>item. \<not> nullish item) items"
    and c: "convertible rt keys item" and crest: "list_all (convertible rt keys) items"
    by simp_all
  show ?case
  proof (cases j)
    case 0
    show ?thesis
    proof (cases "list_ex (key_missing rt item) keys")
      case True
      then obtain ident key where kk: "x_key_keys rt item 0 keys (JStr []) = Inr (ident, Some key)"
        and f: "find (key_missing rt item) keys = Some key"
        using x_key_keys_missing [OF _ c] by blast
      obtain es where "x_key_items rt ap keys items (idSet @ [ident]) = Inr es"
        using x_key_items_no_throw [OF rest crest] by blast
      with nn 0 kk f show ?thesis
        by (cases ap) (auto simp: x_key_report_def)
    next
      case False
      then have kk: "x_key_keys rt item 0 keys (JStr []) = Inr (item_id rt keys item, None)"
        using c by (rule x_key_keys_complete)
      from False have f: "find (key_missing rt item) keys = None"
        by (simp add: find_None_iff list_ex_iff)
      from False Cons.prems(4) 0 have "set_has idSet (item_id rt keys item)"
        by simp
      with nn kk f 0 show ?thesis
        by (simp add: x_key_report_def)
    qed
  next
    case (Suc j')
    with Cons.prems(5) have first: "\<not> list_ex (key_missing rt item) keys"
      "\<not> set_has idSet (item_id rt keys item)"
      by (auto dest: spec [of _ 0])
    then have kk: "x_key_keys rt item 0 keys (JStr []) = Inr (item_id rt keys item, None)"
      using c by (simp add: x_key_keys_complete)
    have a: "j' < length items"
      using Cons.prems(3) Suc by simp
    have b: "list_ex (key_missing rt (items ! j')) keys
         \<or> set_has ((idSet @ [item_id rt keys item]) @ map (item_id rt keys) (take j' items))
              (item_id rt keys (items ! j'))"
      using Cons.prems(4) Suc by simp
    have d: "\<forall>i<j'. \<not> list_ex (key_missing rt (items ! i)) keys
         \<and> \<not> set_has ((idSet @ [item_id rt keys item]) @ map (item_id rt keys) (take i items))
              (item_id rt keys (items ! i))"
    proof (intro allI impI)
      fix i assume "i < j'"
      then have "Suc i < j" using Suc by simp
      with Cons.prems(5) show "\<not> list_ex (key_missing rt (items ! i)) keys
         \<and> \<not> set_has ((idSet @ [item_id rt keys item]) @ map (item_id rt keys) (take i items))
              (item_id rt keys (items ! i))"
        by (auto dest!: spec [of _ "Suc i"])
    qed
    from Cons.IH [OF rest crest a b d] nn kk first Suc show ?thesis
      by simp
  qed
qed

lemma set_has_take:
  "j \<le> length items \<Longrightarrow>
   set_has (map f (take j items)) v = list_ex (\<lambda>i. same_value_zero (f (items ! i)) v) [0..<j]"
proof (induction j)
  case 0
  then show ?case by (simp add: set_has_def)
next
  case (Suc j)
  then have "take (Suc j) items = take j items @ [items ! j]"
    by (simp add: take_Suc_conv_app_nth)
  with Suc show ?case
    by (simp add: set_has_def)
qed

lemma objects_not_nullish: "list_all is_object items \<Longrightarrow> list_all (\<lambda>item. \<not> nullish item) items"
  by (induction items) (auto simp: is_object_def nullish_def)

lemma offending_set_has:
  "j \<le> length items \<Longrightarrow>
   offending rt keys items j =
     (list_ex (key_missing rt (items ! j)) keys
      \<or> set_has ([] @ map (item_id rt keys) (take j items)) (item_id rt keys (items ! j)))"
  by (simp add: offending_def seen_before_def set_has_take)

lemma x_key_items_offending:
  assumes "list_all is_object items" and "list_all (convertible rt keys) items"
  shows "x_key_items rt ap keys items [] = Inr [] \<longleftrightarrow>
    \<not> list_ex (offending rt keys items) [0..<length items]"
  using x_key_items_pass_iff [OF objects_not_nullish [OF assms(1)] assms(2), of ap "[]"]
  by (auto simp: list_ex_iff offending_set_has)

lemma x_key_items_first_offending:
  assumes "list_all is_object items" and "list_all (convertible rt keys) items"
    and "j < length items"
    and "offending rt keys items j"
    and "\<not> list_ex (offending rt keys items) [0..<j]"
  shows "\<exists>more. x_key_items rt ap keys items []
            = Inr (x_key_report rt keys (items ! j) # more) \<and> (ap \<or> more = [])"
proof -
  have b: "list_ex (key_missing rt (items ! j)) keys
         \<or> set_has ([] @ map (item_id rt keys) (take j items))
              (item_id rt keys (items ! j))"
    using assms(3,4) by (simp add: offending_set_has)
  have c: "\<forall>i<j. \<not> list_ex (key_missing rt (items ! i)) keys
         \<and> \<not> set_has ([] @ map (item_id rt keys) (take i items))
              (item_id rt keys (items ! i))"
  proof (intro allI impI)
    fix i assume "i < j"
    with assms(5) have "\<not> offending rt keys items i"
      by (auto simp: list_ex_iff)
    with \<open>i < j\<close> assms(3) show "\<not> list_ex (key_missing rt (items ! i)) keys
         \<and> \<not> set_has ([] @ map (item_id rt keys) (take i items))
              (item_id rt keys (items ! i))"
      by (simp add: offending_set_has)
  qed
  show ?thesis
    by (rule x_key_items_first [OF objects_not_nullish [OF assms(1)] assms(2) assms(3) b c])
qed

subsection \<open>Splitting the annotation\<close>

lemma split_on_no_separator: "c \<notin> set s \<Longrightarrow> split_on c s = [s]"
  by (induction s) auto

lemma split_on_append: "c \<notin> set s \<Longrightarrow> split_on c (s @ c # rest) = s # split_on c rest"
  by (induction s) auto

lemma split_comma_join:
  assumes "ks \<noteq> []" and "list_all (\<lambda>k. CHR '','' \<notin> set k) ks"
  shows "split_comma (join_comma ks) = ks"
  using assms
proof (induction ks rule: join_comma.induct)
  case 1
  then show ?case by simp
next
  case (2 s)
  then show ?case
    by (simp add: split_comma_def split_on_no_separator)
next
  case (3 s t ss)
  then have "split_comma (join_comma (t # ss)) = t # ss"
    by simp
  with 3 show ?case
    using split_on_append [of "CHR '',''" s "join_comma (t # ss)"]
    by (simp add: split_comma_def)
qed

subsection \<open>The example document\<close>

lemma s200: "string_of_nat 200 = ''200''"
  by code_simp

lemma toString_1: "Number_toString rt (Fin 1) = ''1''"
proof -
  have "string_of_nat (Suc 0) = ''1''"
    by code_simp
  with Number_toString_nat [of 1 rt] show ?thesis
    by simp
qed

lemma toString_200: "Number_toString rt (Fin 200) = ''200''"
  using Number_toString_nat [of 200 rt] by (simp add: s200)

lemmas document_eval =
  example_document_def get_item_operation_def get_list_operation_def write_operation_def
  content_of_def item_schema_def list_schema_def item_response_def list_response_def
  example_validator_def

lemmas js_eval =
  nullish_def get_prop_eval has_own_object lodash_get_def truthy_def js_or_def to_number_def
  prim_to_number_def Let_def bind_def read_prop_def array_elements_def

lemmas keyword_eval =
  type_keyword_def required_keyword_def readOnly_keyword_def x_key_keyword_def has_type_def
  is_string_def readOnly_types_def array_elements_def

lemma spec_modules_simps:
  "resolveReference spec_modules doc node = Inr node"
  "mapOasSchemaToJsonSchema spec_modules schema doc disallow write = Inr schema"
  "parameters_resolve spec_modules doc pathParameters operationParameters
     = Inr (resolve_spec doc pathParameters operationParameters)"
  "parameters_buildSchema spec_modules params = Inr (buildSchema_spec params)"
  "Ajv_setup spec_modules userOptions = None"
  by (simp_all add: spec_modules_def)

lemma response_object_item:
  "getResponseObject spec_modules rt this get_item_operation (Fin 200)
     = Inr (JObj [(''content'', content_of item_schema)])"
  by (simp add: getResponseObject_def toString_200 get_item_operation_def js_eval spec_modules_simps)

lemma item_response_schema:
  "body_schema_of rt (JObj [(''content'', content_of item_schema)]) = item_schema"
  by (simp add: body_schema_of_def media_type_def content_of_def js_eval item_schema_def)

lemma resolve_item_response:
  "resolveResponse rt item_response
     = Inr (Fin 200, JObj [(''id'', JStr ''7''), (''name'', JStr ''n'')], JObj [])"
  by (simp add: resolveResponse_def item_response_def js_eval)

lemma accepts_item:
  "accepts rt a item_schema (JObj [(''id'', JStr ''7''), (''name'', JStr ''n'')])
     = (readOnly_kw a = ReadOnlyAnnotation)"
  by (cases "readOnly_kw a") (simp_all add: item_schema_def keyword_eval get_prop_eval)

lemma item_handler:
  "response_handler spec_modules rt get_item_operation this item_response =
     Inr (readOnly_kw (ajv_instance this) = ReadOnlyAnnotation)"
  by (simp add: response_handler_def resolve_item_response response_object_item
      item_response_schema bind_def spec_modules_simps keyword_eval get_prop_eval accepts_item)

lemma validate_leaves:
  "validator_after (validate m rt this method path) = Inr this' \<Longrightarrow>
   this' = this\<lparr>ajv_instance := register_for_request method (ajv_instance this)\<rparr>"
  by (auto simp: validate_def bind_def validator_after_def Let_def split: sum.splits)

lemma document_update [simp]: "document (this\<lparr>ajv_instance := a\<rparr>) = document this"
  by simp

lemma validate_post_item_succeeds:
  assumes "document this = example_document"
  shows "\<exists>v. validator_after (validate spec_modules rt this ''post'' ''/item'') = Inr v"
  using assms
  by (simp add: validate_def validator_after_def getPathItemObject_def getOperationObject_def
      example_document_def write_operation_def get_item_operation_def js_eval spec_modules_simps
      buildSchema_spec_def)

lemma validate_post_item:
  assumes "document this = example_document"
  shows "validator_after (validate spec_modules rt this ''post'' ''/item'')
     = Inr (this\<lparr>ajv_instance := register_for_request ''post'' (ajv_instance this)\<rparr>)"
  using validate_post_item_succeeds [OF assms, of rt] validate_leaves by metis

lemma validate_patch_list_succeeds:
  assumes "document this = example_document"
  shows "\<exists>v. validator_after (validate spec_modules rt this ''patch'' ''/list'') = Inr v"
  using assms
  by (simp add: validate_def validator_after_def getPathItemObject_def getOperationObject_def
      example_document_def write_operation_def get_list_operation_def js_eval spec_modules_simps
      buildSchema_spec_def)

lemma validate_patch_list:
  assumes "document this = example_document"
  shows "validator_after (validate spec_modules rt this ''patch'' ''/list'')
     = Inr (this\<lparr>ajv_instance := register_for_request ''patch'' (ajv_instance this)\<rparr>)"
  using validate_patch_list_succeeds [OF assms, of rt] validate_leaves by metis

lemma validateResponse_get:
  assumes "document this = example_document"
  shows "validateResponse spec_modules rt this ''get'' ''/item''
     = Inr (this\<lparr>ajv_instance := register_for_response (ajv_instance this)\<rparr>,
            response_handler spec_modules rt get_item_operation)"
    and "validateResponse spec_modules rt this ''get'' ''/list''
     = Inr (this\<lparr>ajv_instance := register_for_response (ajv_instance this)\<rparr>,
            response_handler spec_modules rt get_list_operation)"
  using assms
  by (simp_all add: validateResponse_def getOperationObject_def example_document_def js_eval)

lemma response_object_list:
  "getResponseObject spec_modules rt this get_list_operation (Fin 200)
     = Inr (JObj [(''content'', content_of list_schema)])"
  by (simp add: getResponseObject_def toString_200 get_list_operation_def js_eval spec_modules_simps)

lemma list_response_schema:
  "body_schema_of rt (JObj [(''content'', content_of list_schema)]) = list_schema"
  by (simp add: body_schema_of_def media_type_def content_of_def js_eval list_schema_def)

lemma resolve_list_response:
  "resolveResponse rt list_response
     = Inr (Fin 200, JArr [JObj [(''id'', JStr ''a'')], JObj [(''id'', JStr ''a'')]], JObj [])"
  by (simp add: resolveResponse_def list_response_def js_eval)

lemma accepts_list:
  "accepts rt a list_schema (JArr [JObj [(''id'', JStr ''a'')], JObj [(''id'', JStr ''a'')]])
     = (x_key_kw a = Some XKeyAnnotation)"
proof -
  have "x_key_code rt ap ''id'' [JObj [(''id'', JStr ''a'')], JObj [(''id'', JStr ''a'')]]
      = Inr [RedundantKey (JStr ''a'')]" for ap
    by (simp add: x_key_code_def split_comma_def nullish_def get_prop_eval set_has_def
        same_value_zero_def)
  then show ?thesis
    by (cases "x_key_kw a"; cases "the (x_key_kw a)")
      (simp_all add: list_schema_def keyword_eval get_prop_eval)
qed

lemma list_handler:
  "response_handler spec_modules rt get_list_operation this list_response =
     Inr (x_key_kw (ajv_instance this) = Some XKeyAnnotation)"
  by (simp add: response_handler_def resolve_list_response response_object_list
      list_response_schema bind_def spec_modules_simps keyword_eval get_prop_eval accepts_list)

subsection \<open>Where the code agrees with the specification\<close>

text \<open>
  Without the BigInt conversion the comparison of \<^verbatim>\<open>data\<close> is the comparison of the
  converted value: for integers, and for strings whose \<^verbatim>\<open>x-type\<close> is not a 64-bit kind,
  the \<^verbatim>\<open>x-range\<close> code accepts exactly the values within one of the ranges, when the
  bounds are numbers.
\<close>

lemma to_primitive_primitive: "is_primitive v \<Longrightarrow> to_primitive rt h v = Inr v"
  by (cases v) (simp_all add: is_primitive_def)

lemma compare_primitive:
  assumes "is_primitive a" and "is_primitive b"
  shows "\<exists>r. js_ge rt a b = Inr r" and "\<exists>r. js_le rt a b = Inr r"
  using assms
  by (auto simp: js_ge_def js_le_def js_less_def bind_def to_primitive_primitive Let_def
      split: jsval.splits)

lemma compare_converted:
  assumes "is_number b" and "x_range_num rt parentSchema data = Inr (Plain v)"
  shows "js_ge rt data b = js_ge rt v b" and "js_le rt data b = js_le rt v b"
proof -
  obtain nb where b: "b = JNum nb"
    using assms(1) by (cases b) (simp_all add: is_number_def)
  have "js_ge rt data b = js_ge rt v b \<and> js_le rt data b = js_le rt v b"
  proof (cases data)
    case (JStr s)
    with assms(2) have "v = JNum (Number_of_string rt s)"
      by (auto simp: x_range_num_def Let_def split: if_splits option.splits)
    with JStr b show ?thesis
      by (simp add: js_ge_def js_le_def js_less_def bind_def prim_to_number_def)
  qed (use assms(2) in \<open>simp_all add: x_range_num_def\<close>)
  then show "js_ge rt data b = js_ge rt v b" and "js_le rt data b = js_le rt v b"
    by simp_all
qed

lemma x_range_loop_converted:
  assumes "list_all (numeric_range rt) ranges" and "x_range_num rt parentSchema data = Inr (Plain v)"
    and "is_primitive data"
  shows "x_range_loop rt data ranges = Inr (within_some_range rt (Plain v) ranges)"
  using assms(1)
proof (induction ranges)
  case Nil
  then show ?case by (simp add: within_some_range_def)
next
  case (Cons rng ranges)
  then have n: "\<not> nullish rng" "is_number (get_prop rt rng ''min'')" "is_number (get_prop rt rng ''max'')"
    by (simp_all add: numeric_range_def)
  from Cons have ih: "x_range_loop rt data ranges = Inr (within_some_range rt (Plain v) ranges)"
    by simp
  have p: "is_primitive (get_prop rt rng ''min'')" "is_primitive (get_prop rt rng ''max'')"
    using n(2,3) by (auto simp: is_number_def is_primitive_def split: jsval.splits)
  obtain above where a: "js_ge rt data (get_prop rt rng ''min'') = Inr above"
    using compare_primitive(1) [OF assms(3) p(1)] by blast
  obtain below where b: "js_le rt data (get_prop rt rng ''max'') = Inr below"
    using compare_primitive(2) [OF assms(3) p(2)] by blast
  show ?case
    using n(1) ih a b compare_converted(1) [OF n(2) assms(2)] compare_converted(2) [OF n(3) assms(2)]
    by (auto simp: within_some_range_def numeric_ge_def numeric_le_def bind_def)
qed

lemma x_range_code_agrees_without_BigInt:
  assumes "list_all (numeric_range rt) ranges" and "x_range_num rt parentSchema data = Inr (Plain v)"
    and "is_primitive data"
  shows "x_range_code rt parentSchema ranges data = Inr (x_range_as_specified rt parentSchema ranges data)"
  using x_range_loop_converted [OF assms] assms(2)
  by (simp add: x_range_code_def x_range_as_specified_def)

lemma x_range_integer:
  assumes "list_all (numeric_range rt) ranges"
  shows "x_range_code rt parentSchema ranges (JNum (Fin n))
    = Inr (list_ex (\<lambda>rng. js_ge rt (JNum (Fin n)) (get_prop rt rng ''min'') = Inr True
                         \<and> js_le rt (JNum (Fin n)) (get_prop rt rng ''max'') = Inr True) ranges)"
  using x_range_code_agrees_without_BigInt [OF assms, of parentSchema "JNum (Fin n)" "JNum (Fin n)"]
  by (simp add: x_range_num_def x_range_as_specified_def within_some_range_def numeric_ge_def
      numeric_le_def is_primitive_def)

lemma x_range_listed_examples:
  "x_range_keyword rt parentSchema two_ranges (JNum (Fin 3))
   \<and> x_range_keyword rt parentSchema two_ranges (JNum (Fin 10))
   \<and> x_range_keyword rt parentSchema two_ranges (JNum (Fin 20))
   \<and> \<not> x_range_keyword rt parentSchema two_ranges (JNum (Fin 6))
   \<and> \<not> x_range_keyword rt parentSchema two_ranges (JNum (Fin 21))
   \<and> \<not> x_range_keyword rt parentSchema two_ranges (JNum (Fin 0))"
  by (simp add: x_range_keyword_def is_integer_def is_integral_def x_range_code_def x_range_num_def
      two_ranges_def nullish_def get_prop_eval js_ge_def js_le_def js_less_def bind_def
      prim_to_number_def is_string_def)

text \<open>
  A request validator does not depend on what was registered before: \<^verbatim>\<open>validate\<close>
  registers both keywords for its own method and compiles at once.
\<close>

lemma validate_handler_independent:
  assumes "document this = document this'"
    and "disallowAdditionalPropertiesByDefault this = disallowAdditionalPropertiesByDefault this'"
    and "allErrors (ajv_instance this) = allErrors (ajv_instance this')"
  shows "handler_of (validate m rt this method path) = handler_of (validate m rt this' method path)"
proof -
  have "register_for_request method (ajv_instance this) = register_for_request method (ajv_instance this')"
    using assms(3) by (simp add: register_for_request_def)
  with assms(1,2) show ?thesis
    by (simp add: validate_def getPathItemObject_def getOperationObject_def handler_of_def bind_def
        Let_def split: sum.splits)
qed

lemma validate_registers_for_its_method:
  assumes "validator_after (validate m rt this method path) = Inr this'"
  shows "readOnly_kw (ajv_instance this') =
      (if method = ''post'' \<or> method = ''patch'' \<or> method = ''put''
       then ReadOnlyError else ReadOnlyAnnotation)"
    and "x_key_kw (ajv_instance this') = Some (if method = ''patch'' then XKeyAnnotation else XKeyUnique)"
  using validate_leaves [OF assms] by (simp_all add: register_for_request_def)

lemma readOnly_node_rejects:
  assumes "readOnly_kw a = ReadOnlyError" and "assoc kws ''readOnly'' = JBool b"
    and "list_ex (\<lambda>t. has_type t data) readOnly_types"
  shows "\<not> accepts rt a (JObj kws) data"
  using assms by (simp add: readOnly_keyword_def)

lemma readOnly_annotation_ignored:
  "readOnly_kw a = ReadOnlyAnnotation \<Longrightarrow> readOnly_keyword a schemaValue data"
  by (simp add: readOnly_keyword_def)

section \<open>The claims\<close>

text \<open>
  C1. The code converts the value to \<^verbatim>\<open>num\<close> and then compares \<^verbatim>\<open>data\<close>, the value
  before conversion, with the bounds. For a string under \<^verbatim>\<open>x-type: uint64\<close> the two
  differ: \<^verbatim>\<open>BigInt("9007199254740993")\<close> is above the bound \<open>2^53\<close>, so the value is
  outside every range as the specification words the keyword, while the comparison of the
  string itself converts it to the double \<open>2^53\<close> and the validator accepts it.
\<close>

theorem x_range_compares_unconverted_data:
  "x_range_num rt uint64_schema (JStr ''9007199254740993'') = Inr (Big 9007199254740993)
   \<and> \<not> x_range_as_specified rt uint64_schema
          [JObj [(''min'', JNum (Fin 0)), (''max'', JNum (Fin 9007199254740992))]]
          (JStr ''9007199254740993'')
   \<and> x_range_code rt uint64_schema
          [JObj [(''min'', JNum (Fin 0)), (''max'', JNum (Fin 9007199254740992))]]
          (JStr ''9007199254740993'') = Inr True
   \<and> accepts rt a uint64_schema (JStr ''9007199254740993'')"
proof -
  have n: "x_range_num rt uint64_schema (JStr ''9007199254740993'') = Inr (Big 9007199254740993)"
    by (simp add: x_range_num_def uint64_schema_def get_prop_eval BigInt_big)
  have s: "\<not> x_range_as_specified rt uint64_schema
          [JObj [(''min'', JNum (Fin 0)), (''max'', JNum (Fin 9007199254740992))]]
          (JStr ''9007199254740993'')"
    by (simp add: x_range_as_specified_def n within_some_range_def numeric_ge_def numeric_le_def
        big_less_def less_big_def bind_def prim_to_number_def get_prop_eval)
  have c: "x_range_code rt uint64_schema
          [JObj [(''min'', JNum (Fin 0)), (''max'', JNum (Fin 9007199254740992))]]
          (JStr ''9007199254740993'') = Inr True"
    by (simp add: x_range_code_def n nullish_def js_ge_def js_le_def js_less_def bind_def
        prim_to_number_def get_prop_eval Number_big)
  have "accepts rt a uint64_schema (JStr ''9007199254740993'')"
    using c
    by (simp add: uint64_schema_def type_keyword_def has_type_def is_string_def required_keyword_def
        readOnly_keyword_def x_key_keyword_def x_range_keyword_def array_elements_def)
  with n s c show ?thesis by simp
qed

text \<open>
  C2, as the code has it. The annotation names the fields \<open>ks\<close>, joined by commas
  (\<^verbatim>\<open>split(',')\<close> gives them back). \<^verbatim>\<open>validate\<close> registers the uniqueness code for
  every method but \<^verbatim>\<open>patch\<close>, and for \<^verbatim>\<open>patch\<close> a keyword without validation, which
  accepts every value. On an array of objects whose values for the named fields can be
  converted to strings where the code converts them (it converts nothing when one field is
  named), the uniqueness code does not throw, and it fails (reports an error) exactly when
  some element is offending: its value for a named field is \<^verbatim>\<open>undefined\<close> or
  \<^verbatim>\<open>null\<close>, or its identifier is that of an earlier element. The value of an element for
  a field is \<^verbatim>\<open>item[key]\<close>, so a member the element inherits counts as present. The
  identifier is, for one named field, the value of the field itself, compared as a
  \<^verbatim>\<open>Set\<close> compares (the number 1 and the string \<^verbatim>\<open>"1"\<close> differ, two objects are
  never equal); for several fields, the string of the values in declared order joined by
  commas. The elements are taken in the array's order: the first error reported is that of
  the first offending element, its first absent key field or else its identifier as the
  duplicate; it is the only one unless errors are appended (\<^verbatim>\<open>allErrors\<close>).
\<close>

theorem x_key_fails_exactly_on_offending_elements:
  assumes "ks \<noteq> []" and "list_all (\<lambda>k. CHR '','' \<notin> set k) ks"
    and "list_all is_object items" and "list_all (convertible rt ks) items"
  shows "split_comma (join_comma ks) = ks
    \<and> (method \<noteq> ''patch'' \<longrightarrow>
            x_key_kw (register_for_request method a) = Some XKeyUnique
            \<and> x_key_keyword rt (register_for_request method a) (JStr (join_comma ks)) (JArr items)
                = (\<not> list_ex (offending rt ks items) [0..<length items]))
    \<and> (x_key_code rt ap (join_comma ks) items = Inr []
          \<longleftrightarrow> \<not> list_ex (offending rt ks items) [0..<length items])
    \<and> (\<forall>j<length items.
          offending rt ks items j \<and> \<not> list_ex (offending rt ks items) [0..<j]
          \<longrightarrow> (\<exists>more. x_key_code rt ap (join_comma ks) items
                  = Inr (x_key_report rt ks (items ! j) # more)
                \<and> (ap \<or> more = [])))
    \<and> x_key_kw (register_for_request ''patch'' a) = Some XKeyAnnotation
    \<and> x_key_keyword rt (register_for_request ''patch'' a) schemaValue data"
proof -
  have s: "split_comma (join_comma ks) = ks"
    using assms(1,2) by (rule split_comma_join)
  have p: "\<And>ap. x_key_code rt ap (join_comma ks) items = Inr []
          \<longleftrightarrow> \<not> list_ex (offending rt ks items) [0..<length items]"
    using x_key_items_offending [OF assms(3,4)] by (simp add: x_key_code_def s)
  have "method \<noteq> ''patch'' \<longrightarrow>
            x_key_kw (register_for_request method a) = Some XKeyUnique
            \<and> x_key_keyword rt (register_for_request method a) (JStr (join_comma ks)) (JArr items)
                = (\<not> list_ex (offending rt ks items) [0..<length items])"
    by (simp add: register_for_request_def x_key_keyword_def array_elements_def p)
  moreover have "\<forall>j<length items.
          offending rt ks items j \<and> \<not> list_ex (offending rt ks items) [0..<j]
          \<longrightarrow> (\<exists>more. x_key_code rt ap (join_comma ks) items
                  = Inr (x_key_report rt ks (items ! j) # more)
                \<and> (ap \<or> more = []))"
    using x_key_items_first_offending [OF assms(3,4)] by (simp add: x_key_code_def s)
  moreover have "x_key_kw (register_for_request ''patch'' a) = Some XKeyAnnotation
      \<and> x_key_keyword rt (register_for_request ''patch'' a) schemaValue data"
    by (simp add: register_for_request_def x_key_keyword_def)
  ultimately show ?thesis
    using s p by blast
qed

text \<open>
  Instances of C2. The key \<^verbatim>\<open>id\<close> over \<^verbatim>\<open>[{id:"a"},{id:"b"}]\<close>, over
  \<^verbatim>\<open>[{id:"a"},{id:"a"}]\<close> and over \<^verbatim>\<open>[{}]\<close>; the keys \<^verbatim>\<open>a,b\<close> over
  \<^verbatim>\<open>[{a:1,b:"x"},{a:1,b:"x"}]\<close>, where the duplicate identifier is \<^verbatim>\<open>"1,x"\<close>, and
  over \<^verbatim>\<open>[{a:1,b:"x"},{a:1,b:"y"}]\<close>; the key \<^verbatim>\<open>toString\<close> over \<^verbatim>\<open>[{}]\<close>, which
  passes because every object inherits a member of that name; and the duplicate payload
  under \<^verbatim>\<open>post\<close> and under \<^verbatim>\<open>patch\<close>.
\<close>

theorem x_key_fails_exactly_on_offending_elements_witness:
  "split_comma ''a,b'' = [''a'', ''b'']
   \<and> item_id some_runtime [''a'', ''b''] (JObj [(''a'', JNum (Fin 1)), (''b'', JStr ''x'')]) = JStr ''1,x''
   \<and> \<not> offending some_runtime [''a'', ''b'']
         [JObj [(''a'', JNum (Fin 1)), (''b'', JStr ''x'')], JObj [(''a'', JNum (Fin 1)), (''b'', JStr ''x'')]] 0
   \<and> offending some_runtime [''a'', ''b'']
         [JObj [(''a'', JNum (Fin 1)), (''b'', JStr ''x'')], JObj [(''a'', JNum (Fin 1)), (''b'', JStr ''x'')]] 1
   \<and> x_key_code some_runtime False ''id'' [JObj [(''id'', JStr ''a'')], JObj [(''id'', JStr ''b'')]] = Inr []
   \<and> x_key_code some_runtime False ''id'' [JObj [(''id'', JStr ''a'')], JObj [(''id'', JStr ''a'')]]
       = Inr [RedundantKey (JStr ''a'')]
   \<and> x_key_code some_runtime False ''id'' [JObj []] = Inr [KeyNotPresent ''id'']
   \<and> x_key_code some_runtime False ''a,b''
         [JObj [(''a'', JNum (Fin 1)), (''b'', JStr ''x'')], JObj [(''a'', JNum (Fin 1)), (''b'', JStr ''x'')]]
       = Inr [RedundantKey (JStr ''1,x'')]
   \<and> x_key_code some_runtime False ''a,b''
         [JObj [(''a'', JNum (Fin 1)), (''b'', JStr ''x'')], JObj [(''a'', JNum (Fin 1)), (''b'', JStr ''y'')]]
       = Inr []
   \<and> x_key_code some_runtime False ''toString'' [JObj []] = Inr []
   \<and> \<not> x_key_keyword some_runtime
         (register_for_request ''post'' (ajv_instance (example_validator (JObj []))))
         (JStr ''id'') (JArr [JObj [(''id'', JStr ''a'')], JObj [(''id'', JStr ''a'')]])
   \<and> x_key_keyword some_runtime
         (register_for_request ''patch'' (ajv_instance (example_validator (JObj []))))
         (JStr ''id'') (JArr [JObj [(''id'', JStr ''a'')], JObj [(''id'', JStr ''a'')]])"
proof -
  have k: "split_comma ''id'' = [''id'']" "split_comma ''a,b'' = [''a'', ''b'']"
    "split_comma ''toString'' = [''toString'']"
    by (simp_all add: split_comma_def)
  have n: "plus_string some_runtime (JNum (Fin 1)) = Inr ''1''"
    by (simp add: plus_string_def bind_def prim_to_string_def toString_1)
  have e: "x_key_code some_runtime False ''id'' [JObj [(''id'', JStr ''a'')], JObj [(''id'', JStr ''b'')]] = Inr []"
    "x_key_code some_runtime False ''id'' [JObj [(''id'', JStr ''a'')], JObj [(''id'', JStr ''a'')]]
       = Inr [RedundantKey (JStr ''a'')]"
    "x_key_code some_runtime False ''id'' [JObj []] = Inr [KeyNotPresent ''id'']"
    "x_key_code some_runtime False ''toString'' [JObj []] = Inr []"
    by (simp_all add: x_key_code_def k nullish_def get_prop_eval get_prop_object set_has_def
        same_value_zero_def)
  have f: "x_key_code some_runtime False ''a,b''
         [JObj [(''a'', JNum (Fin 1)), (''b'', JStr ''x'')], JObj [(''a'', JNum (Fin 1)), (''b'', JStr ''x'')]]
       = Inr [RedundantKey (JStr ''1,x'')]"
    "x_key_code some_runtime False ''a,b''
         [JObj [(''a'', JNum (Fin 1)), (''b'', JStr ''x'')], JObj [(''a'', JNum (Fin 1)), (''b'', JStr ''y'')]]
       = Inr []"
    by (simp_all add: x_key_code_def k nullish_def get_prop_eval set_has_def same_value_zero_def n
        plus_string_string bind_def)
  have c: "convertible some_runtime [''id''] item" for item
    by (simp add: convertible_def)
  have d: "convertible some_runtime [''a'', ''b''] (JObj [(''a'', JNum (Fin 1)), (''b'', JStr ''x'')])"
    by (simp add: convertible_def converts_def get_prop_eval n plus_string_string)
  have i: "item_id some_runtime [''a'', ''b''] (JObj [(''a'', JNum (Fin 1)), (''b'', JStr ''x'')]) = JStr ''1,x''"
    by (simp add: item_id_def get_prop_eval n plus_string_string text_of_def)
  have o: "\<not> offending some_runtime [''a'', ''b'']
         [JObj [(''a'', JNum (Fin 1)), (''b'', JStr ''x'')], JObj [(''a'', JNum (Fin 1)), (''b'', JStr ''x'')]] 0"
    "offending some_runtime [''a'', ''b'']
         [JObj [(''a'', JNum (Fin 1)), (''b'', JStr ''x'')], JObj [(''a'', JNum (Fin 1)), (''b'', JStr ''x'')]] 1"
    by (simp_all add: offending_def seen_before_def key_missing_def get_prop_eval i same_value_zero_def)
  show ?thesis
    using x_key_fails_exactly_on_offending_elements
      [of "[''id'']" "[JObj [(''id'', JStr ''a'')], JObj [(''id'', JStr ''a'')]]" some_runtime
          "''post''" "ajv_instance (example_validator (JObj []))" False "JStr ''id''"
          "JArr [JObj [(''id'', JStr ''a'')], JObj [(''id'', JStr ''a'')]]"]
      x_key_fails_exactly_on_offending_elements
      [of "[''a'', ''b'']"
          "[JObj [(''a'', JNum (Fin 1)), (''b'', JStr ''x'')], JObj [(''a'', JNum (Fin 1)), (''b'', JStr ''x'')]]"
          some_runtime "''post''" "ajv_instance (example_validator (JObj []))" False "JStr ''a,b''"
          "JArr []"]
      e f i o
    by (simp add: is_object_def k c d)
qed

text \<open>
  C2, as the claim states it, fails. With one named field the code does not form a string:
  over \<^verbatim>\<open>[{id:1},{id:"1"}]\<close> the values joined by commas are \<^verbatim>\<open>1\<close> for both
  elements, so the composite identifier of the second has been seen, while the code compares
  the number with the string, finds them different, and passes the array.
\<close>

theorem x_key_single_key_counterexample:
  "composite_id some_runtime (split_comma ''id'') (JObj [(''id'', JNum (Fin 1))]) = ''1''
   \<and> composite_id some_runtime (split_comma ''id'') (JObj [(''id'', JStr ''1'')]) = ''1''
   \<and> \<not> x_key_as_specified some_runtime (split_comma ''id'')
          [JObj [(''id'', JNum (Fin 1))], JObj [(''id'', JStr ''1'')]]
   \<and> x_key_code some_runtime False ''id'' [JObj [(''id'', JNum (Fin 1))], JObj [(''id'', JStr ''1'')]] = Inr []
   \<and> x_key_keyword some_runtime
         (register_for_request ''post'' (ajv_instance (example_validator (JObj []))))
         (JStr ''id'') (JArr [JObj [(''id'', JNum (Fin 1))], JObj [(''id'', JStr ''1'')]])"
proof -
  have k: "split_comma ''id'' = [''id'']"
    by (simp add: split_comma_def)
  have n: "to_string some_runtime (JNum (Fin 1)) = Inr ''1''"
    by (simp add: to_string_def bind_def prim_to_string_def toString_1)
  have s: "to_string some_runtime (JStr ''1'') = Inr ''1''"
    by (simp add: to_string_def bind_def prim_to_string_def)
  have c: "composite_id some_runtime [''id''] (JObj [(''id'', JNum (Fin 1))]) = ''1''"
    "composite_id some_runtime [''id''] (JObj [(''id'', JStr ''1'')]) = ''1''"
    by (simp_all add: composite_id_def get_prop_eval n s text_of_def)
  have u: "[0..<2] = [0, 1]"
    by (simp add: upt_rec)
  have a: "\<not> x_key_as_specified some_runtime [''id'']
          [JObj [(''id'', JNum (Fin 1))], JObj [(''id'', JStr ''1'')]]"
    by (simp add: x_key_as_specified_def u c)
  have e: "x_key_code some_runtime False ''id'' [JObj [(''id'', JNum (Fin 1))], JObj [(''id'', JStr ''1'')]] = Inr []"
    by (simp add: x_key_code_def k nullish_def get_prop_eval set_has_def same_value_zero_def)
  show ?thesis
    using c a e
    by (simp add: k x_key_keyword_def register_for_request_def array_elements_def
        example_validator_def)
qed

text \<open>
  Outside the proviso on conversions the code has a third outcome: with several named
  fields, a value that \<^verbatim>\<open>+\<close> cannot convert to a string (an object whose own
  \<^verbatim>\<open>toString\<close> is not a function) makes the validator throw a TypeError.
\<close>

lemma x_key_unconvertible_value_throws:
  "x_key_code rt ap ''a,b''
     [JObj [(''a'', JObj [(''toString'', JNum (Fin 1))]), (''b'', JNum (Fin 1))]] = Inl TypeError"
proof -
  have k: "split_comma ''a,b'' = [''a'', ''b'']"
    by (simp add: split_comma_def)
  have "plus_string rt (JObj [(''toString'', JNum (Fin 1))]) = Inl TypeError"
    by (simp add: plus_string_def method_order_def get_prop_object Object_prototype_get_def
        Object_prototype_methods_def call_method_def is_primitive_def bind_def)
  then show ?thesis
    by (simp add: x_key_code_def k nullish_def get_prop_eval bind_def)
qed

text \<open>
  C3. \<^verbatim>\<open>validateResponse\<close> registers \<^verbatim>\<open>x-key\<close> and leaves \<^verbatim>\<open>readOnly\<close> as the last
  call of \<^verbatim>\<open>validate\<close> left it, and its handler compiles the schema when it runs. So the
  handler for \<^verbatim>\<open>GET /item\<close> passes a response that carries the read-only field, until a
  request validator is compiled for \<^verbatim>\<open>POST /item\<close> on the same validator object; after
  that the same handler rejects the same response.
\<close>

theorem readOnly_leaks_into_response_validation:
  "validateResponse spec_modules rt (example_validator example_document) ''get'' ''/item''
     = Inr ((example_validator example_document)
              \<lparr>ajv_instance := \<lparr>readOnly_kw = ReadOnlyAnnotation, x_key_kw = Some XKeyUnique, allErrors = False\<rparr>\<rparr>,
            response_handler spec_modules rt get_item_operation)
   \<and> response_handler spec_modules rt get_item_operation
        ((example_validator example_document)
           \<lparr>ajv_instance := \<lparr>readOnly_kw = ReadOnlyAnnotation, x_key_kw = Some XKeyUnique, allErrors = False\<rparr>\<rparr>)
        item_response = Inr True
   \<and> validator_after (validate spec_modules rt
        ((example_validator example_document)
           \<lparr>ajv_instance := \<lparr>readOnly_kw = ReadOnlyAnnotation, x_key_kw = Some XKeyUnique, allErrors = False\<rparr>\<rparr>)
        ''post'' ''/item'')
     = Inr ((example_validator example_document)
              \<lparr>ajv_instance := \<lparr>readOnly_kw = ReadOnlyError, x_key_kw = Some XKeyUnique, allErrors = False\<rparr>\<rparr>)
   \<and> response_handler spec_modules rt get_item_operation
        ((example_validator example_document)
           \<lparr>ajv_instance := \<lparr>readOnly_kw = ReadOnlyError, x_key_kw = Some XKeyUnique, allErrors = False\<rparr>\<rparr>)
        item_response = Inr False"
  using validate_post_item
    [of "(example_validator example_document)
           \<lparr>ajv_instance := \<lparr>readOnly_kw = ReadOnlyAnnotation, x_key_kw = Some XKeyUnique, allErrors = False\<rparr>\<rparr>" rt]
    validateResponse_get(1) [of "example_validator example_document" rt]
  by (simp add: item_handler register_for_response_def register_for_request_def
      example_validator_def)

text \<open>
  C4. For a status code \<open>n\<close> (a natural number, below \<open>2^53\<close>, so that it prints
  as its decimal numeral), \<^verbatim>\<open>_getResponseObject\<close> selects the operation's response entry for
  the exact code if there is one, otherwise the entry for the status-class token (the first
  digit followed by \<^verbatim>\<open>XX\<close>), otherwise the entry \<^verbatim>\<open>default\<close>, and returns it through
  \<^verbatim>\<open>resolveReference\<close>; with none of the three it throws the error that no response
  object was found. With entries for \<^verbatim>\<open>404\<close>, \<^verbatim>\<open>4XX\<close> and \<^verbatim>\<open>default\<close>, 404 selects
  the exact entry, 403 the class entry and 500 the default.
\<close>

theorem response_selection:
  assumes "n < 2 ^ 53"
  shows "getResponseObject m rt this op (Fin (of_nat n)) =
    (case response_entry rt op (string_of_nat n) of
       Some r \<Rightarrow> resolveReference m (document this) r
     | None \<Rightarrow>
         (case response_entry rt op (status_class n) of
            Some r \<Rightarrow> resolveReference m (document this) r
          | None \<Rightarrow>
              (case response_entry rt op ''default'' of
                 Some r \<Rightarrow> resolveReference m (document this) r
               | None \<Rightarrow> Inl (Error (''No response object found with statusCode='' @ string_of_nat n)))))"
proof -
  have nn: "\<And>k r. response_entry rt op k = Some r \<Longrightarrow> r \<noteq> JNull"
    by (auto simp: response_entry_def nullish_def split: if_splits)
  show ?thesis
    using assms
    by (auto simp: getResponseObject_def Number_toString_nat class_field lodash_get_responses Let_def
        dest: nn split: option.splits)
qed

text \<open>The instances of C4 the specification lists.\<close>

theorem response_selection_witness:
  "getResponseObject spec_modules some_runtime (example_validator (JObj [])) example_operation (Fin 404) =
     Inr (JObj [(''description'', JStr ''exact'')])
   \<and> getResponseObject spec_modules some_runtime (example_validator (JObj [])) example_operation (Fin 403) =
     Inr (JObj [(''description'', JStr ''class'')])
   \<and> getResponseObject spec_modules some_runtime (example_validator (JObj [])) example_operation (Fin 500) =
     Inr (JObj [(''description'', JStr ''default'')])
   \<and> getResponseObject spec_modules some_runtime (example_validator (JObj []))
         (JObj [(''responses'', JObj [])]) (Fin 500) =
     Inl (Error ''No response object found with statusCode=500'')"
proof -
  have s: "string_of_nat 404 = ''404''" "string_of_nat 403 = ''403''" "string_of_nat 500 = ''500''"
    by code_simp+
  have c: "status_class 404 = ''4XX''" "status_class 403 = ''4XX''" "status_class 500 = ''5XX''"
    by code_simp+
  show ?thesis
    using response_selection [of 404 spec_modules some_runtime "example_validator (JObj [])" example_operation]
      response_selection [of 403 spec_modules some_runtime "example_validator (JObj [])" example_operation]
      response_selection [of 500 spec_modules some_runtime "example_validator (JObj [])" example_operation]
      response_selection [of 500 spec_modules some_runtime "example_validator (JObj [])" "JObj [(''responses'', JObj [])]"]
    by (simp add: s c response_entry_def example_operation_def nullish_def get_prop_eval spec_modules_def)
qed

text \<open>
  C5, as the code has it. The request schema is an object schema; its \<^verbatim>\<open>required\<close> list
  is \<^verbatim>\<open>query\<close>, \<^verbatim>\<open>headers\<close>, \<^verbatim>\<open>params\<close>, then \<^verbatim>\<open>cookies\<close> if and only if the
  cookies fragment of the parameter schema is an object with more than one key of its own
  (\<^verbatim>\<open>Object.keys(parametersSchema.cookies).length > 1\<close>), then \<^verbatim>\<open>body\<close> if and only if
  the request body object has \<^verbatim>\<open>required\<close> equal to \<^verbatim>\<open>true\<close>.
\<close>

theorem required_list_contents:
  "get_prop rt (request_schema rt resolvedBodySchema parametersSchema requestBodyObject) ''type'' = JStr ''object''
   \<and> get_prop rt (request_schema rt resolvedBodySchema parametersSchema requestBodyObject) ''required'' =
     JArr ([JStr ''query'', JStr ''headers'', JStr ''params'']
           @ (if 1 < length (Object_keys (get_prop rt parametersSchema ''cookies'')) then [JStr ''cookies''] else [])
           @ (if get_prop rt requestBodyObject ''required'' = JBool True \<and> \<not> nullish requestBodyObject
              then [JStr ''body''] else []))"
  using keys_nonempty [of "get_prop rt parametersSchema ''cookies''"]
  by (auto simp: request_schema_def required_list_def get_prop_eval lodash_get_def Let_def)

text \<open>
  C5, as the claim states it, fails. The count the code takes is of the keys of the fragment,
  not of the cookie parameters: with the fragment the specification describes (an object
  schema with its properties and its required list), one declared cookie parameter already
  puts \<^verbatim>\<open>cookies\<close> in the list.
\<close>

theorem required_list_counterexample:
  "length (location_parameters ''cookie''
      (JArr [JObj [(''name'', JStr ''session''), (''in'', JStr ''cookie''), (''required'', JBool True),
                   (''schema'', JObj [(''type'', JStr ''string'')])]])) = 1
   \<and> JStr ''cookies'' \<in> set (required_list some_runtime
        (buildSchema_spec
          (JArr [JObj [(''name'', JStr ''session''), (''in'', JStr ''cookie''), (''required'', JBool True),
                       (''schema'', JObj [(''type'', JStr ''string'')])]]))
        (JObj []))"
  by (simp add: location_parameters_def array_items_def get_prop_eval param_field_def own_value_def required_list_def
      buildSchema_spec_def fragment_spec_def lodash_isEmpty_def Object_keys_def)

text \<open>
  C6. The response handler of one (operation, method) pair compiles its schema each time it
  runs, with the keywords registered in the shared Ajv instance at that time. The handler
  for \<^verbatim>\<open>GET /list\<close> rejects a payload with a duplicate key; once a request validator has
  been compiled for \<^verbatim>\<open>PATCH /list\<close> in between, which registers \<^verbatim>\<open>x-key\<close> without
  validation, the same handler accepts the same payload.
\<close>

theorem response_validator_depends_on_earlier_compilations:
  "validateResponse spec_modules rt (example_validator example_document) ''get'' ''/list''
     = Inr ((example_validator example_document)
              \<lparr>ajv_instance := \<lparr>readOnly_kw = ReadOnlyAnnotation, x_key_kw = Some XKeyUnique, allErrors = False\<rparr>\<rparr>,
            response_handler spec_modules rt get_list_operation)
   \<and> response_handler spec_modules rt get_list_operation
        ((example_validator example_document)
           \<lparr>ajv_instance := \<lparr>readOnly_kw = ReadOnlyAnnotation, x_key_kw = Some XKeyUnique, allErrors = False\<rparr>\<rparr>)
        list_response = Inr False
   \<and> validator_after (validate spec_modules rt
        ((example_validator example_document)
           \<lparr>ajv_instance := \<lparr>readOnly_kw = ReadOnlyAnnotation, x_key_kw = Some XKeyUnique, allErrors = False\<rparr>\<rparr>)
        ''patch'' ''/list'')
     = Inr ((example_validator example_document)
              \<lparr>ajv_instance := \<lparr>readOnly_kw = ReadOnlyError, x_key_kw = Some XKeyAnnotation, allErrors = False\<rparr>\<rparr>)
   \<and> response_handler spec_modules rt get_list_operation
        ((example_validator example_document)
           \<lparr>ajv_instance := \<lparr>readOnly_kw = ReadOnlyError, x_key_kw = Some XKeyAnnotation, allErrors = False\<rparr>\<rparr>)
        list_response = Inr True"
  using validate_patch_list
    [of "(example_validator example_document)
           \<lparr>ajv_instance := \<lparr>readOnly_kw = ReadOnlyAnnotation, x_key_kw = Some XKeyUnique, allErrors = False\<rparr>\<rparr>" rt]
    validateResponse_get(2) [of "example_validator example_document" rt]
  by (simp add: list_handler register_for_response_def register_for_request_def
      example_validator_def)

text \<open>
  C7, as the code has it. The constructor tests the \<^verbatim>\<open>openapi\<close> field against the
  range \<^verbatim>\<open>^3.0.0\<close>, which admits every release of major version 3, not only
  \<^verbatim>\<open>3.0.x\<close>. For a document whose \<^verbatim>\<open>openapi\<close> field is a string or absent: when
  the field is a version \<^verbatim>\<open>3.y.z\<close> without a pre-release tag, construction goes on to
  the options and succeeds unless the options are \<^verbatim>\<open>null\<close> (a TypeError) or the set-up
  of the Ajv instance throws on the caller's \<^verbatim>\<open>ajvOptions\<close>; for every other such
  value of the field it throws the unsupported-version error, whose text holds
  \<^verbatim>\<open>openapi || swagger\<close> (or the TypeError of a \<^verbatim>\<open>swagger\<close> value that has no
  string form).
\<close>

theorem constructor_admits_major_3:
  assumes "\<not> nullish openApiDocument"
    and "is_string (get_prop rt openApiDocument ''openapi'')
         \<or> get_prop rt openApiDocument ''openapi'' = JUndefined"
  shows "constructor m rt openApiDocument options =
    (if version_3_x (get_prop rt openApiDocument ''openapi'')
     then (if options = JNull then Inl TypeError
           else case Ajv_setup m (get_prop rt (if options = JUndefined then JObj [] else options)
                                    ''ajvOptions'') of
                  Some e \<Rightarrow> Inl e
                | None \<Rightarrow>
                    Inr \<lparr>ajv_instance =
                           \<lparr>readOnly_kw = ReadOnlyAnnotation, x_key_kw = None,
                            allErrors =
                              truthy (assoc (merged_ajvOptions
                                        (get_prop rt (if options = JUndefined then JObj [] else options)
                                           ''ajvOptions''))
                                      ''allErrors'')\<rparr>,
                         document = openApiDocument,
                         disallowAdditionalPropertiesByDefault =
                           (get_prop rt (if options = JUndefined then JObj [] else options)
                              ''disallowAdditionalPropertiesByDefault'' = JBool True)\<rparr>)
     else bind (to_string rt (js_or (get_prop rt openApiDocument ''openapi'')
                                    (get_prop rt openApiDocument ''swagger'')))
            (\<lambda>version. Inl (Error (''Unsupported OpenAPI / Swagger version='' @ version))))"
  using assms by (simp add: constructor_def satisfies_caret_3_0_0 Let_def)

text \<open>
  Instances of C7: version \<^verbatim>\<open>3.0.3\<close> with no options and with empty options, the
  same with \<^verbatim>\<open>null\<close> options, a Swagger 2.0 document, and version \<^verbatim>\<open>4.0.0\<close>.
\<close>

theorem constructor_admits_major_3_witness:
  "constructor spec_modules some_runtime (JObj [(''openapi'', JStr ''3.0.3'')]) JUndefined =
     Inr \<lparr>ajv_instance = \<lparr>readOnly_kw = ReadOnlyAnnotation, x_key_kw = None, allErrors = False\<rparr>,
          document = JObj [(''openapi'', JStr ''3.0.3'')],
          disallowAdditionalPropertiesByDefault = False\<rparr>
   \<and> constructor spec_modules some_runtime (JObj [(''openapi'', JStr ''3.0.3'')]) (JObj []) =
     Inr \<lparr>ajv_instance = \<lparr>readOnly_kw = ReadOnlyAnnotation, x_key_kw = None, allErrors = False\<rparr>,
          document = JObj [(''openapi'', JStr ''3.0.3'')],
          disallowAdditionalPropertiesByDefault = False\<rparr>
   \<and> constructor spec_modules some_runtime (JObj [(''openapi'', JStr ''3.0.3'')]) JNull = Inl TypeError
   \<and> constructor spec_modules some_runtime (JObj [(''swagger'', JStr ''2.0'')]) (JObj []) =
     Inl (Error ''Unsupported OpenAPI / Swagger version=2.0'')
   \<and> constructor spec_modules some_runtime (JObj [(''openapi'', JStr ''4.0.0'')]) (JObj []) =
     Inl (Error ''Unsupported OpenAPI / Swagger version=4.0.0'')"
proof -
  have a: "version_3_x (JStr ''3.0.3'')"
    by (simp add: version_3_x_def semver_eval)
  have b: "\<not> version_3_x (JStr ''4.0.0'')"
    by (simp add: version_3_x_def semver_eval)
  show ?thesis
    using constructor_admits_major_3 [of "JObj [(''openapi'', JStr ''3.0.3'')]" some_runtime spec_modules JUndefined]
      constructor_admits_major_3 [of "JObj [(''openapi'', JStr ''3.0.3'')]" some_runtime spec_modules "JObj []"]
      constructor_admits_major_3 [of "JObj [(''openapi'', JStr ''3.0.3'')]" some_runtime spec_modules JNull]
      constructor_admits_major_3 [of "JObj [(''swagger'', JStr ''2.0'')]" some_runtime spec_modules "JObj []"]
      constructor_admits_major_3 [of "JObj [(''openapi'', JStr ''4.0.0'')]" some_runtime spec_modules "JObj []"]
      a b
    by (simp add: nullish_def get_prop_eval is_string_def version_3_x_def truthy_def js_or_def
        spec_modules_simps merged_ajvOptions_def obj_spread_def Object_keys_def to_string_def bind_def
        prim_to_string_def)
qed

text \<open>
  C7, as the claim states it, fails: \<^verbatim>\<open>3.1.0\<close> is outside \<^verbatim>\<open>3.0.x\<close>, and a
  document with that version is accepted.
\<close>

theorem constructor_3_1_0_counterexample:
  "\<not> version_3_0_x (JStr ''3.1.0'')
   \<and> constructor spec_modules some_runtime (JObj [(''openapi'', JStr ''3.1.0'')]) (JObj []) =
     Inr \<lparr>ajv_instance = \<lparr>readOnly_kw = ReadOnlyAnnotation, x_key_kw = None, allErrors = False\<rparr>,
          document = JObj [(''openapi'', JStr ''3.1.0'')],
          disallowAdditionalPropertiesByDefault = False\<rparr>"
proof -
  have "SemVer ''3.1.0'' = Some \<lparr>major = 3, minor = 1, patch = 0, prerelease = []\<rparr>"
    by (simp add: semver_eval)
  then show ?thesis
    by (simp add: version_3_0_x_def constructor_def nullish_def get_prop_eval satisfies_def
        truthy_def testSet_caret_3_0_0 spec_modules_simps merged_ajvOptions_def obj_spread_def
        Object_keys_def)
qed

text \<open>
  C8, as the code has it. \<^verbatim>\<open>resolveResponse\<close> throws a TypeError exactly when the value
  is \<^verbatim>\<open>null\<close> or \<^verbatim>\<open>undefined\<close>, or \<^verbatim>\<open>Number(statusCode || status)\<close> is NaN or
  itself throws (an object without a conversion; \<open>number_of\<close> is NaN then), or
  \<^verbatim>\<open>body\<close> is falsy while \<^verbatim>\<open>data\<close> is \<^verbatim>\<open>null\<close> or \<^verbatim>\<open>undefined\<close>, or
  \<^verbatim>\<open>headers\<close> is \<^verbatim>\<open>null\<close> or \<^verbatim>\<open>undefined\<close>; otherwise it returns the triple of
  that number, \<^verbatim>\<open>body || data\<close> and the headers. When it throws, the response handler
  ends with that TypeError before it selects a response definition or validates.
\<close>

theorem resolveResponse_throws_exactly:
  "resolveResponse rt res =
    (if nullish res
        \<or> number_of (to_number rt (if truthy (get_prop rt res ''statusCode'') then get_prop rt res ''statusCode''
                                    else get_prop rt res ''status'')) = NaN
        \<or> (\<not> truthy (get_prop rt res ''body'') \<and> nullish (get_prop rt res ''data''))
        \<or> nullish (get_prop rt res ''headers'')
     then Inl TypeError
     else Inr (number_of (to_number rt (if truthy (get_prop rt res ''statusCode'') then get_prop rt res ''statusCode''
                                       else get_prop rt res ''status'')),
               if truthy (get_prop rt res ''body'') then get_prop rt res ''body'' else get_prop rt res ''data'',
               get_prop rt res ''headers''))
   \<and> (resolveResponse rt res = Inl TypeError \<longrightarrow> response_handler m rt operation this res = Inl TypeError)"
proof (cases "to_number rt (if truthy (get_prop rt res ''statusCode'') then get_prop rt res ''statusCode''
                            else get_prop rt res ''status'')")
  case (Inl e)
  then have "e = TypeError"
    by (rule to_number_error)
  with Inl show ?thesis
    by (auto simp: resolveResponse_def js_or_def number_of_def bind_def response_handler_def)
next
  case (Inr n)
  then show ?thesis
    by (auto simp: resolveResponse_def js_or_def Let_def nullish_def truthy_def response_handler_def
        number_of_def bind_def split: option.splits)
qed

text \<open>Instances of C8: no response, the second conventional shape, and a missing body.\<close>

theorem resolveResponse_throws_exactly_witness:
  "resolveResponse some_runtime JNull = Inl TypeError
   \<and> response_handler spec_modules some_runtime example_operation (example_validator (JObj [])) JNull
       = Inl TypeError
   \<and> resolveResponse some_runtime
       (JObj [(''status'', JNum (Fin 200)), (''data'', JObj []), (''headers'', JObj [])])
       = Inr (Fin 200, JObj [], JObj [])
   \<and> resolveResponse some_runtime
       (JObj [(''statusCode'', JNum (Fin 200)), (''headers'', JObj [])]) = Inl TypeError"
  using resolveResponse_throws_exactly [of some_runtime JNull spec_modules example_operation "example_validator (JObj [])"]
    resolveResponse_throws_exactly [of some_runtime "JObj [(''status'', JNum (Fin 200)), (''data'', JObj []), (''headers'', JObj [])]"
        spec_modules example_operation "example_validator (JObj [])"]
    resolveResponse_throws_exactly [of some_runtime "JObj [(''statusCode'', JNum (Fin 200)), (''headers'', JObj [])]"
        spec_modules example_operation "example_validator (JObj [])"]
  by (simp add: nullish_def get_prop_eval truthy_def to_number_def number_of_def bind_def
      prim_to_number_def)

text \<open>
  C8, as the claim states it, fails: a response whose status code, body and headers are all
  there is refused with the TypeError when its body is \<^verbatim>\<open>false\<close> (or 0, or the empty
  string) and it has no \<^verbatim>\<open>data\<close>, because \<^verbatim>\<open>res.body || res.data\<close> skips a falsy
  body.
\<close>

theorem resolveResponse_falsy_body_counterexample:
  "determinable some_runtime
     (JObj [(''statusCode'', JNum (Fin 200)), (''body'', JBool False), (''headers'', JObj [])])
   \<and> resolveResponse some_runtime
     (JObj [(''statusCode'', JNum (Fin 200)), (''body'', JBool False), (''headers'', JObj [])])
     = Inl TypeError"
  by (simp add: determinable_def resolveResponse_def nullish_def get_prop_eval truthy_def to_number_def
      number_of_def bind_def prim_to_number_def js_or_def)

text \<open>
  C9. Under an \<^verbatim>\<open>x-empty: true\<close> annotation an array is accepted if and only if it has
  exactly one element and that element is \<^verbatim>\<open>null\<close>: \<^verbatim>\<open>[null]\<close> is accepted,
  \<^verbatim>\<open>[]\<close>, \<^verbatim>\<open>[null, null]\<close> and \<^verbatim>\<open>[1]\<close> are rejected.
\<close>

theorem x_empty_accepts_exactly_null_singleton:
  "x_empty_keyword (JBool True) (JArr xs) = (xs = [JNull])
   \<and> x_empty_keyword (JBool True) (JArr [JNull])
   \<and> \<not> x_empty_keyword (JBool True) (JArr [])
   \<and> \<not> x_empty_keyword (JBool True) (JArr [JNull, JNull])
   \<and> \<not> x_empty_keyword (JBool True) (JArr [JNum (Fin 1)])"
proof -
  have "x_empty_keyword (JBool True) (JArr xs) = (xs = [JNull])"
    by (cases xs) (auto simp: x_empty_keyword_def x_empty_code_def arr_index_def array_elements_def)
  then show ?thesis
    by (simp add: x_empty_keyword_def x_empty_code_def arr_index_def array_elements_def)
qed

text \<open>
  C10. \<^verbatim>\<open>validate\<close> reads the body schema of the resolved request body object, and the
  handler of \<^verbatim>\<open>validateResponse\<close> that of the selected response object, from the entry
  of the object's \<^verbatim>\<open>content\<close> for the media type \<^verbatim>\<open>application/yang-data+json\<close>,
  and from nothing else in it. For an object whose \<^verbatim>\<open>content\<close> is a map: the schema
  read is the \<^verbatim>\<open>schema\<close> of that entry when the entry holds one; it is the empty schema
  \<^verbatim>\<open>{}\<close>, which accepts every value, when the map has no such entry, whatever other
  media types it declares. The request handler and the response handler validate the body
  against that schema (resolved, and mapped to JSON Schema), as a property of the schema
  they compile.
\<close>

theorem body_schema_read_from_one_media_type:
  "(assoc ps ''content'' = JObj cs \<longrightarrow> body_schema_of rt (JObj ps) = yang_entry_schema rt cs)
   \<and> (assoc cs ''application/yang-data+json'' = JObj es \<and> assoc es ''schema'' \<noteq> JUndefined
        \<longrightarrow> yang_entry_schema rt cs = assoc es ''schema'')
   \<and> (''application/yang-data+json'' \<notin> fst ` set cs \<longrightarrow> yang_entry_schema rt cs = JObj [])
   \<and> accepts rt a (JObj []) data
   \<and> (getPathItemObject rt this path = Inr pathItemObject
        \<and> getOperationObject rt this method path = Inr operation
        \<and> resolveReference m (document this) (lodash_get rt operation [''requestBody''] (JObj []))
            = Inr (JObj qps)
        \<and> assoc qps ''content'' = JObj qcs
      \<longrightarrow> validate m rt this method path =
          bind (read_prop rt pathItemObject ''parameters'') (\<lambda>pathParameters.
          bind (read_prop rt operation ''parameters'') (\<lambda>operationParameters.
          bind (parameters_resolve m (document this) pathParameters operationParameters) (\<lambda>params.
          bind (parameters_buildSchema m params) (\<lambda>parametersSchema.
          bind (resolveReference m (document this) (yang_entry_schema rt qcs)) (\<lambda>resolvedBodySchema.
          bind (read_prop rt parametersSchema ''cookies'') (\<lambda>cookies.
          bind (mapOasSchemaToJsonSchema m
                  (request_schema rt resolvedBodySchema parametersSchema (JObj qps))
                  (document this) (disallowAdditionalPropertiesByDefault this)
                  (method = ''put'' \<or> method = ''post'')) (\<lambda>jsonSchema.
            Inr (this\<lparr>ajv_instance := register_for_request method (ajv_instance this)\<rparr>,
                 \<lambda>req. case reqToValidate rt req of
                         Inl e \<Rightarrow> False
                       | Inr r \<Rightarrow> accepts rt (register_for_request method (ajv_instance this))
                                    jsonSchema r)))))))))
   \<and> (resolveResponse rt res = Inr (statusCode, body, headers)
        \<and> getResponseObject m rt this operation statusCode = Inr (JObj rps)
        \<and> assoc rps ''content'' = JObj rcs
      \<longrightarrow> response_handler m rt operation this res =
          bind (resolveReference m (document this) (yang_entry_schema rt rcs)) (\<lambda>resolvedBodySchema.
          bind (mapOasSchemaToJsonSchema m
                  (JObj [(''type'', JStr ''object''),
                         (''properties'',
                            JObj [(''body'', resolvedBodySchema),
                                  (''headers'', JObj [(''type'', JStr ''object''), (''properties'', JObj [])])]),
                         (''required'', JArr [JStr ''headers'', JStr ''body''])])
                  (document this) (disallowAdditionalPropertiesByDefault this) True) (\<lambda>schema.
            Inr (accepts rt (ajv_instance this) schema (JObj [(''body'', body), (''headers'', headers)])))))"
proof -
  have read: "body_schema_of rt (JObj xs) = yang_entry_schema rt ys" if "assoc xs ''content'' = JObj ys" for xs ys
    using that
    by (auto simp: body_schema_of_def media_type_def yang_entry_schema_def lodash_get_def Let_def
        get_prop_eval nullish_def)
  have entry: "assoc cs ''application/yang-data+json'' = JObj es \<and> assoc es ''schema'' \<noteq> JUndefined
        \<longrightarrow> yang_entry_schema rt cs = assoc es ''schema''"
    by (simp add: yang_entry_schema_def nullish_def get_prop_eval)
  have absent: "''application/yang-data+json'' \<notin> fst ` set cs \<longrightarrow> yang_entry_schema rt cs = JObj []"
    by (simp add: yang_entry_schema_def assoc_absent nullish_def)
  have request: "getPathItemObject rt this path = Inr pathItemObject
        \<and> getOperationObject rt this method path = Inr operation
        \<and> resolveReference m (document this) (lodash_get rt operation [''requestBody''] (JObj []))
            = Inr (JObj qps)
        \<and> assoc qps ''content'' = JObj qcs
      \<longrightarrow> validate m rt this method path =
          bind (read_prop rt pathItemObject ''parameters'') (\<lambda>pathParameters.
          bind (read_prop rt operation ''parameters'') (\<lambda>operationParameters.
          bind (parameters_resolve m (document this) pathParameters operationParameters) (\<lambda>params.
          bind (parameters_buildSchema m params) (\<lambda>parametersSchema.
          bind (resolveReference m (document this) (yang_entry_schema rt qcs)) (\<lambda>resolvedBodySchema.
          bind (read_prop rt parametersSchema ''cookies'') (\<lambda>cookies.
          bind (mapOasSchemaToJsonSchema m
                  (request_schema rt resolvedBodySchema parametersSchema (JObj qps))
                  (document this) (disallowAdditionalPropertiesByDefault this)
                  (method = ''put'' \<or> method = ''post'')) (\<lambda>jsonSchema.
            Inr (this\<lparr>ajv_instance := register_for_request method (ajv_instance this)\<rparr>,
                 \<lambda>req. case reqToValidate rt req of
                         Inl e \<Rightarrow> False
                       | Inr r \<Rightarrow> accepts rt (register_for_request method (ajv_instance this))
                                    jsonSchema r))))))))"
  proof (intro impI, elim conjE)
    assume "getPathItemObject rt this path = Inr pathItemObject"
      and "getOperationObject rt this method path = Inr operation"
      and "resolveReference m (document this) (lodash_get rt operation [''requestBody''] (JObj []))
            = Inr (JObj qps)"
      and c: "assoc qps ''content'' = JObj qcs"
    then show "validate m rt this method path =
          bind (read_prop rt pathItemObject ''parameters'') (\<lambda>pathParameters.
          bind (read_prop rt operation ''parameters'') (\<lambda>operationParameters.
          bind (parameters_resolve m (document this) pathParameters operationParameters) (\<lambda>params.
          bind (parameters_buildSchema m params) (\<lambda>parametersSchema.
          bind (resolveReference m (document this) (yang_entry_schema rt qcs)) (\<lambda>resolvedBodySchema.
          bind (read_prop rt parametersSchema ''cookies'') (\<lambda>cookies.
          bind (mapOasSchemaToJsonSchema m
                  (request_schema rt resolvedBodySchema parametersSchema (JObj qps))
                  (document this) (disallowAdditionalPropertiesByDefault this)
                  (method = ''put'' \<or> method = ''post'')) (\<lambda>jsonSchema.
            Inr (this\<lparr>ajv_instance := register_for_request method (ajv_instance this)\<rparr>,
                 \<lambda>req. case reqToValidate rt req of
                         Inl e \<Rightarrow> False
                       | Inr r \<Rightarrow> accepts rt (register_for_request method (ajv_instance this))
                                    jsonSchema r))))))))"
      by (simp add: validate_def bind_simps read [OF c] Let_def)
  qed
  have response: "resolveResponse rt res = Inr (statusCode, body, headers)
        \<and> getResponseObject m rt this operation statusCode = Inr (JObj rps)
        \<and> assoc rps ''content'' = JObj rcs
      \<longrightarrow> response_handler m rt operation this res =
          bind (resolveReference m (document this) (yang_entry_schema rt rcs)) (\<lambda>resolvedBodySchema.
          bind (mapOasSchemaToJsonSchema m
                  (JObj [(''type'', JStr ''object''),
                         (''properties'',
                            JObj [(''body'', resolvedBodySchema),
                                  (''headers'', JObj [(''type'', JStr ''object''), (''properties'', JObj [])])]),
                         (''required'', JArr [JStr ''headers'', JStr ''body''])])
                  (document this) (disallowAdditionalPropertiesByDefault this) True) (\<lambda>schema.
            Inr (accepts rt (ajv_instance this) schema (JObj [(''body'', body), (''headers'', headers)]))))"
  proof (intro impI, elim conjE)
    assume "resolveResponse rt res = Inr (statusCode, body, headers)"
      and "getResponseObject m rt this operation statusCode = Inr (JObj rps)"
      and c: "assoc rps ''content'' = JObj rcs"
    then show "response_handler m rt operation this res =
          bind (resolveReference m (document this) (yang_entry_schema rt rcs)) (\<lambda>resolvedBodySchema.
          bind (mapOasSchemaToJsonSchema m
                  (JObj [(''type'', JStr ''object''),
                         (''properties'',
                            JObj [(''body'', resolvedBodySchema),
                                  (''headers'', JObj [(''type'', JStr ''object''), (''properties'', JObj [])])]),
                         (''required'', JArr [JStr ''headers'', JStr ''body''])])
                  (document this) (disallowAdditionalPropertiesByDefault this) True) (\<lambda>schema.
            Inr (accepts rt (ajv_instance this) schema (JObj [(''body'', body), (''headers'', headers)]))))"
      by (simp add: response_handler_def bind_simps read [OF c])
  qed
  from read [of ps cs] entry absent accepts_empty_schema [of rt a data] request response
  show ?thesis
    by blast
qed

text \<open>
  Instances of C10. A body declared under \<^verbatim>\<open>application/json\<close> only gives the empty
  schema, and one declared under both media types gives the schema of the
  \<^verbatim>\<open>application/yang-data+json\<close> entry. End to end, with a string schema declared for
  the body: under \<^verbatim>\<open>application/json\<close> the request handler and the response handler
  both pass a body that is the number 5; under \<^verbatim>\<open>application/yang-data+json\<close> both
  refuse it.
\<close>

theorem body_schema_read_from_one_media_type_witness:
  "body_schema_of some_runtime
     (JObj [(''content'', JObj [(''application/json'', JObj [(''schema'', JObj [(''type'', JStr ''string'')])])])])
     = JObj []
   \<and> body_schema_of some_runtime
     (JObj [(''content'', JObj [(''application/json'', JObj [(''schema'', JObj [(''type'', JStr ''string'')])]),
                                (''application/yang-data+json'', JObj [(''schema'', JObj [(''type'', JStr ''object'')])])])])
     = JObj [(''type'', JStr ''object'')]
   \<and> verdict (validate spec_modules some_runtime (example_validator media_document) ''post'' ''/json'')
       number_request = Some True
   \<and> verdict (validate spec_modules some_runtime (example_validator media_document) ''post'' ''/yang'')
       number_request = Some False
   \<and> response_handler spec_modules some_runtime (media_operation ''application/json'')
       (example_validator media_document) number_response = Inr True
   \<and> response_handler spec_modules some_runtime (media_operation ''application/yang-data+json'')
       (example_validator media_document) number_response = Inr False"
proof -
  have b: "body_schema_of some_runtime
     (JObj [(''content'', JObj [(''application/json'', JObj [(''schema'', JObj [(''type'', JStr ''string'')])])])])
     = JObj []"
    "body_schema_of some_runtime
     (JObj [(''content'', JObj [(''application/json'', JObj [(''schema'', JObj [(''type'', JStr ''string'')])]),
                                (''application/yang-data+json'', JObj [(''schema'', JObj [(''type'', JStr ''object'')])])])])
     = JObj [(''type'', JStr ''object'')]"
    by (simp_all add: body_schema_of_def media_type_def js_eval)
  have q: "reqToValidate some_runtime number_request =
      Inr (JObj [(''query'', JObj []), (''headers'', JObj []), (''params'', JObj []),
                 (''body'', JNum (Fin 5)), (''cookies'', JObj [])])"
    by (simp add: reqToValidate_def number_request_def pick_def has_in_def own_value_def
        obj_spread_def Object_keys_def js_eval)
  have v: "verdict (validate spec_modules some_runtime (example_validator media_document) ''post'' ''/json'')
       number_request = Some True"
    "verdict (validate spec_modules some_runtime (example_validator media_document) ''post'' ''/yang'')
       number_request = Some False"
    by (simp_all add: verdict_def validate_def getPathItemObject_def getOperationObject_def
        media_document_def media_operation_def example_validator_def body_schema_of_def media_type_def
        js_eval spec_modules_simps q request_schema_def required_list_def buildSchema_spec_def
        fragment_spec_def resolve_spec_def array_items_def location_parameters_def obj_spread_def
        Object_keys_def lodash_isEmpty_def own_value_def keyword_eval register_for_request_def
        is_integer_def)
  have r: "response_handler spec_modules some_runtime (media_operation ''application/json'')
       (example_validator media_document) number_response = Inr True"
    "response_handler spec_modules some_runtime (media_operation ''application/yang-data+json'')
       (example_validator media_document) number_response = Inr False"
    by (simp_all add: response_handler_def resolveResponse_def getResponseObject_def toString_200
        number_response_def media_operation_def example_validator_def body_schema_of_def
        media_type_def js_eval spec_modules_simps keyword_eval is_integer_def)
  show ?thesis
    using body_schema_read_from_one_media_type
      [where rt = some_runtime and m = spec_modules
         and ps = "[(''content'', JObj [(''application/json'', JObj [(''schema'', JObj [(''type'', JStr ''string'')])])])]"
         and cs = "[(''application/json'', JObj [(''schema'', JObj [(''type'', JStr ''string'')])])]"
         and es = "[]" and a = "ajv_instance (example_validator media_document)" and data = "JNum (Fin 5)"
         and this = "example_validator media_document" and path = "''/json''"
         and pathItemObject = "JObj [(''post'', media_operation ''application/json'')]"
         and operation = "media_operation ''application/json''"
         and qps = "[(''required'', JBool True),
                     (''content'', JObj [(''application/json'', JObj [(''schema'', JObj [(''type'', JStr ''string'')])])])]"
         and qcs = "[(''application/json'', JObj [(''schema'', JObj [(''type'', JStr ''string'')])])]"
         and res = number_response and statusCode = "Fin 200" and body = "JNum (Fin 5)"
         and headers = "JObj []"
         and rps = "[(''content'', JObj [(''application/json'', JObj [(''schema'', JObj [(''type'', JStr ''string'')])])])]"
         and rcs = "[(''application/json'', JObj [(''schema'', JObj [(''type'', JStr ''string'')])])]",
       of "''post''"]
      b v r
    by (simp only: simp_thms)
qed

end
